theory Spec2Isabelle
  imports Complex_Main
begin

section \<open>Numbers and arrays\<close>

text \<open>
  The module works on numpy arrays of float64. A float is modelled by its value: a
  finite real, one of the two infinities, or NaN. Finite arithmetic is exact (rounding,
  overflow and the sign of zero are not modelled); the special values follow IEEE 754,
  which numpy applies without raising: a division by zero gives an infinity or NaN.
\<close>

datatype npfloat = Fin real | PInf | NInf | NaN

fun fneg :: "npfloat \<Rightarrow> npfloat" where
  "fneg (Fin a) = Fin (- a)"
| "fneg PInf = NInf"
| "fneg NInf = PInf"
| "fneg NaN = NaN"

fun fadd :: "npfloat \<Rightarrow> npfloat \<Rightarrow> npfloat" where
  "fadd NaN _ = NaN"
| "fadd _ NaN = NaN"
| "fadd (Fin a) (Fin b) = Fin (a + b)"
| "fadd PInf NInf = NaN"
| "fadd NInf PInf = NaN"
| "fadd PInf _ = PInf"
| "fadd _ PInf = PInf"
| "fadd NInf _ = NInf"
| "fadd _ NInf = NInf"

definition fsub :: "npfloat \<Rightarrow> npfloat \<Rightarrow> npfloat" where
  "fsub a b = fadd a (fneg b)"

fun fmul :: "npfloat \<Rightarrow> npfloat \<Rightarrow> npfloat" where
  "fmul NaN _ = NaN"
| "fmul _ NaN = NaN"
| "fmul (Fin a) (Fin b) = Fin (a * b)"
| "fmul (Fin a) PInf = (if a = 0 then NaN else if 0 < a then PInf else NInf)"
| "fmul (Fin a) NInf = (if a = 0 then NaN else if 0 < a then NInf else PInf)"
| "fmul PInf (Fin b) = (if b = 0 then NaN else if 0 < b then PInf else NInf)"
| "fmul NInf (Fin b) = (if b = 0 then NaN else if 0 < b then NInf else PInf)"
| "fmul PInf PInf = PInf"
| "fmul PInf NInf = NInf"
| "fmul NInf PInf = NInf"
| "fmul NInf NInf = PInf"

fun fdiv :: "npfloat \<Rightarrow> npfloat \<Rightarrow> npfloat" where
  "fdiv NaN _ = NaN"
| "fdiv _ NaN = NaN"
| "fdiv (Fin a) (Fin b) =
     (if b = 0 then (if a = 0 then NaN else if 0 < a then PInf else NInf)
      else Fin (a / b))"
| "fdiv (Fin a) PInf = Fin 0"
| "fdiv (Fin a) NInf = Fin 0"
| "fdiv PInf (Fin b) = (if 0 \<le> b then PInf else NInf)"
| "fdiv NInf (Fin b) = (if 0 \<le> b then NInf else PInf)"
| "fdiv PInf PInf = NaN"
| "fdiv PInf NInf = NaN"
| "fdiv NInf PInf = NaN"
| "fdiv NInf NInf = NaN"

fun fabs :: "npfloat \<Rightarrow> npfloat" where
  "fabs (Fin a) = Fin \<bar>a\<bar>"
| "fabs PInf = PInf"
| "fabs NInf = PInf"
| "fabs NaN = NaN"

text \<open>\<open>x ** 2.0\<close>\<close>

fun fsquare :: "npfloat \<Rightarrow> npfloat" where
  "fsquare (Fin a) = Fin (a * a)"
| "fsquare PInf = PInf"
| "fsquare NInf = PInf"
| "fsquare NaN = NaN"

fun fsqrt :: "npfloat \<Rightarrow> npfloat" where
  "fsqrt (Fin a) = (if a < 0 then NaN else Fin (sqrt a))"
| "fsqrt PInf = PInf"
| "fsqrt NInf = NaN"
| "fsqrt NaN = NaN"

text \<open>
  A label array is one-dimensional, one scalar label per molecule, so that the statistics
  along axis 0 are one number each. A feature array is a list of rows, one flattened
  molecule tensor per row; its \<open>size\<close> is the number of its elements.
\<close>

type_synonym labels = "npfloat list"
type_synonym features = "real list list"

definition size_of :: "features \<Rightarrow> nat" where
  "size_of x = length (concat x)"

primrec fsum :: "npfloat list \<Rightarrow> npfloat" where
  "fsum [] = Fin 0"
| "fsum (v # vs) = fadd v (fsum vs)"

text \<open>
  \<open>np.mean(y, axis=0)\<close>: the sum over the number of elements; of an empty array it is
  \<open>0.0 / 0\<close>, NaN with a warning.
\<close>

definition np_mean :: "labels \<Rightarrow> npfloat" where
  "np_mean ys = fdiv (fsum ys) (Fin (real (length ys)))"

text \<open>\<open>np.std(y, axis=0)\<close>, with numpy's default \<open>ddof=0\<close>:
  \<open>sqrt(mean(abs(y - mean(y)) ** 2))\<close>.\<close>

definition np_std :: "labels \<Rightarrow> npfloat" where
  "np_std ys = fsqrt (np_mean (map (\<lambda>v. fsquare (fabs (fsub v (np_mean ys)))) ys))"


definition standardize :: "npfloat \<Rightarrow> npfloat \<Rightarrow> npfloat \<Rightarrow> npfloat" where
  "standardize m sd v = fdiv (fsub v m) sd"

section \<open>The Predictor and its surroundings\<close>

record 'm Predictor =
  model :: "'m option"
  out_dir :: "string option"
  y_mean :: "npfloat option"
  y_std :: "npfloat option"

text \<open>
  What the module can raise: the usage error of \<open>predict\<close>, Python's own errors where
  \<open>None\<close> is used as a value, and whatever an external routine raises, which
  passes through unchanged.
\<close>

datatype error =
    MissingMeanStd
  | TypeError
  | AttributeError
  | ValueError
  | ExternalError string

datatype content = TextLines "string list" | Pickled "npfloat option" "npfloat option" | Blob "real list"

type_synonym filesystem = "string \<rightharpoonup> content"

type_synonym losses = "npfloat list \<times> npfloat list \<times> npfloat \<times> npfloat"

datatype logmsg =
    Info_loading_weights string
  | Info_mean_std npfloat npfloat
  | Info_splitting_dataset real
  | Info_final_statistics "npfloat list"
  | Info_splitting_training_data
  | Info_training_model
  | Info_points string nat
  | Info_saving_model
  | Info_backing_up string

text \<open>
  The calls that leave the module (the model, the trainer, the splitters, the metric
  functions) and the log records are written to a trace, in the order the code makes them.
\<close>

datatype 'm event =
    Log logmsg
  | Call_model_predict 'm features
  | Call_calculate_rmse labels labels
  | Call_calculate_mae labels labels
  | Call_split_test_from_train_and_val features labels "string list" int real
  | Call_prepare_folded_data features labels int int
  | Call_prepare_data_one_fold "features list" "labels list" int int real
  | Call_split_inner_val_from_train_data features labels int real
  | Call_train_model "'m option" features labels features labels features labels
      "features option" "labels option"
  | Call_save_model "'m option" losses string
  | Call_reset_model "'m option"
  | Call_load_weights 'm string

record 'm world =
  self :: "'m Predictor"
  fs :: filesystem
  trace :: "'m event list"

text \<open>
  The routines of rmgpy and of \<open>util\<close> that the module imports are parameters. Each
  returns its result or the message of the exception it raised.
\<close>

record 'm externals =
  model_predict :: "'m \<Rightarrow> features \<Rightarrow> string + npfloat list list"
  model_load_weights :: "'m \<Rightarrow> string \<Rightarrow> string + 'm"
  calculate_rmse :: "labels \<Rightarrow> labels \<Rightarrow> string + npfloat"
  calculate_mae :: "labels \<Rightarrow> labels \<Rightarrow> string + npfloat"
  split_test_from_train_and_val :: "features \<Rightarrow> labels \<Rightarrow> string list \<Rightarrow> int \<Rightarrow> real \<Rightarrow>
     string + (features \<times> labels \<times> features \<times> labels \<times> string list \<times> string list)"
  prepare_folded_data :: "features \<Rightarrow> labels \<Rightarrow> int \<Rightarrow> int \<Rightarrow>
     string + (features list \<times> labels list)"
  prepare_data_one_fold :: "features list \<Rightarrow> labels list \<Rightarrow> int \<Rightarrow> int \<Rightarrow> real \<Rightarrow>
     string + (features \<times> features \<times> features \<times> labels \<times> labels \<times> labels)"
  split_inner_val_from_train_data :: "features \<Rightarrow> labels \<Rightarrow> int \<Rightarrow> real \<Rightarrow>
     string + (features \<times> features \<times> labels \<times> labels)"
  train_model :: "'m option \<Rightarrow> features \<Rightarrow> labels \<Rightarrow> features \<Rightarrow> labels \<Rightarrow> features \<Rightarrow> labels \<Rightarrow>
     features option \<Rightarrow> labels option \<Rightarrow> string + ('m \<times> losses)"
  cnn_save_model :: "'m option \<Rightarrow> losses \<Rightarrow> string \<Rightarrow> filesystem \<Rightarrow> string + filesystem"
  cnn_reset_model :: "'m option \<Rightarrow> string + 'm"

subsection \<open>Sequencing with exceptions\<close>

type_synonym ('m, 'a) action = "'m world \<Rightarrow> (error + 'a) \<times> 'm world"

definition returnA :: "'a \<Rightarrow> ('m, 'a) action" where
  "returnA a s = (Inr a, s)"

definition raiseA :: "error \<Rightarrow> ('m, 'a) action" where
  "raiseA e s = (Inl e, s)"

definition bindA :: "('m, 'a) action \<Rightarrow> ('a \<Rightarrow> ('m, 'b) action) \<Rightarrow> ('m, 'b) action" where
  "bindA f g s = (case f s of (Inl e, s') \<Rightarrow> (Inl e, s') | (Inr a, s') \<Rightarrow> g a s')"

definition emit :: "'m event \<Rightarrow> ('m, unit) action" where
  "emit ev s = (Inr (), s\<lparr>trace := trace s @ [ev]\<rparr>)"

definition external :: "'m event \<Rightarrow> string + 'a \<Rightarrow> ('m, 'a) action" where
  "external ev r s =
     (case r of Inl msg \<Rightarrow> Inl (ExternalError msg) | Inr a \<Rightarrow> Inr a,
      s\<lparr>trace := trace s @ [ev]\<rparr>)"

subsection \<open>normalize, predict, evaluate\<close>

definition normalize :: "labels \<Rightarrow> labels list \<Rightarrow> ('m, labels \<times> labels list) action" where
  "normalize y_train other_ys s =
     (let m = np_mean y_train;
          sd = np_std y_train;
          s1 = s\<lparr>self := (self s)\<lparr>y_mean := Some m, y_std := Some sd\<rparr>\<rparr>
      in bindA (emit (Log (Info_mean_std m sd)))
           (\<lambda>_. returnA (map (standardize m sd) y_train,
                          map (map (standardize m sd)) other_ys)) s1)"

definition denormalize :: "npfloat \<Rightarrow> npfloat \<Rightarrow> npfloat \<Rightarrow> npfloat" where
  "denormalize m sd v = fadd (fmul v sd) m"

definition predict :: "'m externals \<Rightarrow> features \<Rightarrow> bool \<Rightarrow> ('m, labels) action" where
  "predict e x nrm s =
     (case model (self s) of
        None \<Rightarrow> raiseA AttributeError s
      | Some m \<Rightarrow>
          bindA (external (Call_model_predict m x) (model_predict e m x))
            (\<lambda>out s'.
               let y_norm = concat out in
               if nrm then returnA y_norm s'
               else (case y_mean (self s') of
                       None \<Rightarrow> raiseA MissingMeanStd s'
                     | Some mu \<Rightarrow>
                        (case y_std (self s') of
                           None \<Rightarrow> raiseA MissingMeanStd s'
                         | Some sd \<Rightarrow> returnA (map (denormalize mu sd) y_norm) s'))) s)"

definition rescale :: "npfloat \<Rightarrow> npfloat \<Rightarrow> ('m, npfloat \<times> npfloat) action" where
  "rescale rmse mae s =
     (case y_std (self s) of
        None \<Rightarrow> raiseA TypeError s
      | Some sd \<Rightarrow> returnA (fmul (fsquare sd) rmse, fmul (fsquare sd) mae) s)"

definition evaluate :: "'m externals \<Rightarrow> features \<Rightarrow> labels \<Rightarrow> bool \<Rightarrow> ('m, npfloat \<times> npfloat) action" where
  "evaluate e x y nrm =
     bindA (predict e x nrm)
       (\<lambda>y_pred. bindA (external (Call_calculate_rmse y y_pred) (calculate_rmse e y y_pred))
          (\<lambda>rmse. bindA (external (Call_calculate_mae y y_pred) (calculate_mae e y y_pred))
             (\<lambda>mae. if nrm then rescale rmse mae else returnA (rmse, mae))))"

subsection \<open>Files\<close>

text \<open>
  The file system is a map from paths to file contents; directories are not modelled.
  \<open>shutil.move\<close> onto an existing file replaces it.
\<close>

definition shutil_move :: "string \<Rightarrow> string \<Rightarrow> filesystem \<Rightarrow> filesystem" where
  "shutil_move src dst f = (f(dst := f src))(src := None)"

text \<open>
  \<open>os.path.join(a, b)\<close> for a relative \<open>b\<close>. The module is Python 2 code (rmgpy's
  cnn_framework), where joining onto \<open>None\<close> is an AttributeError.
\<close>

definition path_join :: "string \<Rightarrow> string \<Rightarrow> string" where
  "path_join a b = (if a = [] \<or> last a = CHR ''/'' then a @ b else a @ ''/'' @ b)"

fun string_of_nat :: "nat \<Rightarrow> string" where
  "string_of_nat n =
     (if n < 10 then [char_of (48 + n)]
      else string_of_nat (n div 10) @ [char_of (48 + n mod 10)])"

declare string_of_nat.simps [simp del]

text \<open>
  Modelled from the spec: \<open>pickle_dump\<close> of the module \<open>util\<close>, which is not among the
  sources; it "serializes \<open>(y_mean, y_std)\<close> to the stats file".
\<close>

definition pickle_dump :: "string \<Rightarrow> npfloat option \<times> npfloat option \<Rightarrow> ('m, unit) action" where
  "pickle_dump path obj s = (Inr (), s\<lparr>fs := (fs s)(path \<mapsto> Pickled (fst obj) (snd obj))\<rparr>)"

definition external_fs :: "'m event \<Rightarrow> (filesystem \<Rightarrow> string + filesystem) \<Rightarrow> ('m, unit) action" where
  "external_fs ev f s =
     (case f (fs s) of
        Inl msg \<Rightarrow> (Inl (ExternalError msg), s\<lparr>trace := trace s @ [ev]\<rparr>)
      | Inr fs' \<Rightarrow> (Inr (), s\<lparr>fs := fs', trace := trace s @ [ev]\<rparr>))"

subsection \<open>reset\_model, load\_weights\<close>

definition reset_model :: "'m externals \<Rightarrow> ('m, unit) action" where
  "reset_model e s =
     bindA (external (Call_reset_model (model (self s))) (cnn_reset_model e (model (self s))))
       (\<lambda>m' s'. (Inr (), s'\<lparr>self := (self s')\<lparr>model := Some m'\<rparr>\<rparr>)) s"

definition load_weights :: "'m externals \<Rightarrow> string \<Rightarrow> ('m, unit) action" where
  "load_weights e model_weights_path =
     bindA (emit (Log (Info_loading_weights model_weights_path)))
       (\<lambda>_ s. case model (self s) of
                 None \<Rightarrow> raiseA AttributeError s
               | Some m \<Rightarrow>
                   bindA (external (Call_load_weights m model_weights_path)
                            (model_load_weights e m model_weights_path))
                     (\<lambda>m' s'. (Inr (), s'\<lparr>self := (self s')\<lparr>model := Some m'\<rparr>\<rparr>)) s)"

subsection \<open>split\_test\<close>

definition write_names :: "string list \<Rightarrow> string list \<Rightarrow> ('m, unit) action" where
  "write_names names_test names_train s =
     (case out_dir (self s) of
        None \<Rightarrow> raiseA AttributeError s
      | Some d \<Rightarrow>
          (Inr (), s\<lparr>fs := (fs s)(path_join d ''names_test.txt'' \<mapsto> TextLines names_test,
                                   path_join d ''names_train.txt'' \<mapsto> TextLines names_train)\<rparr>))"

definition split_test :: "'m externals \<Rightarrow> features \<Rightarrow> labels \<Rightarrow> string list \<Rightarrow> real \<Rightarrow> bool \<Rightarrow>
    ('m, features \<times> labels \<times> features \<times> labels) action" where
  "split_test e x y names test_split save_names =
     bindA (emit (Log (Info_splitting_dataset test_split)))
       (\<lambda>_. bindA (external (Call_split_test_from_train_and_val x y names 7 test_split)
                     (split_test_from_train_and_val e x y names 7 test_split))
          (\<lambda>(x_test, y_test, x_train, y_train, names_test, names_train).
             bindA (if save_names then write_names names_test names_train else returnA ())
               (\<lambda>_. returnA (x_test, y_test, x_train, y_train))))"

subsection \<open>save\_model\<close>

definition backup :: "string \<Rightarrow> string \<Rightarrow> ('m, unit) action" where
  "backup model_path ext s =
     (if fs s (model_path @ ext) \<noteq> None
      then bindA (emit (Log (Info_backing_up (model_path @ ext))))
             (\<lambda>_ s'. (Inr (), s'\<lparr>fs := shutil_move (model_path @ ext)
                                             (model_path @ ''_backup'' @ ext) (fs s')\<rparr>)) s
      else returnA () s)"

definition save_model :: "'m externals \<Rightarrow> string \<Rightarrow> losses \<Rightarrow> ('m, unit) action" where
  "save_model e model_path ls =
     bindA (emit (Log Info_saving_model))
       (\<lambda>_. bindA (backup model_path ''.json'')
          (\<lambda>_. bindA (backup model_path ''.h5'')
             (\<lambda>_. bindA (backup model_path ''.attr'')
                (\<lambda>_ s. bindA (external_fs (Call_save_model (model (self s)) ls model_path)
                                 (cnn_save_model e (model (self s)) ls model_path))
                          (\<lambda>_ s'. pickle_dump (model_path @ ''.attr'')
                                     (y_mean (self s'), y_std (self s')) s') s))))"

subsection \<open>Training\<close>

text \<open>
  The trainer is called with the held model and replaces it. The keyword settings of the
  trainer are part of the parameter \<open>train_model\<close>.
\<close>

definition call_train_model :: "'m externals \<Rightarrow> features \<Rightarrow> labels \<Rightarrow> features \<Rightarrow> labels \<Rightarrow>
    features \<Rightarrow> labels \<Rightarrow> features option \<Rightarrow> labels option \<Rightarrow> ('m, losses) action" where
  "call_train_model e x_train y_train x_inner_val y_inner_val x_test y_test x_outer_val y_outer_val s =
     bindA (external (Call_train_model (model (self s)) x_train y_train x_inner_val y_inner_val
                        x_test y_test x_outer_val y_outer_val)
              (train_model e (model (self s)) x_train y_train x_inner_val y_inner_val
                        x_test y_test x_outer_val y_outer_val))
       (\<lambda>(m', ls) s'. (Inr ls, s'\<lparr>self := (self s')\<lparr>model := Some m'\<rparr>\<rparr>)) s"

text \<open>Lines 100 to 122 of \<open>kfcv_train\<close>: the metrics of the four subsets and their report.\<close>

definition kfcv_statistics :: "'m externals \<Rightarrow> features \<Rightarrow> labels \<Rightarrow> features \<Rightarrow> labels \<Rightarrow>
    features \<Rightarrow> labels \<Rightarrow> features \<Rightarrow> labels \<Rightarrow> ('m, unit) action" where
  "kfcv_statistics e x_train y_train x_inner_val y_inner_val x_outer_val y_outer_val x_test y_test =
     bindA (evaluate e x_train y_train True)
       (\<lambda>(rmse_train, mae_train).
          bindA (if size_of x_inner_val \<noteq> 0 then evaluate e x_inner_val y_inner_val True
                 else returnA (NaN, NaN))
            (\<lambda>(rmse_inner_val, mae_inner_val).
               bindA (evaluate e x_outer_val y_outer_val True)
                 (\<lambda>(rmse_outer_val, mae_outer_val).
                    bindA (if size_of x_test \<noteq> 0 then evaluate e x_test y_test True
                           else returnA (NaN, NaN))
                      (\<lambda>(rmse_test, mae_test).
                         emit (Log (Info_final_statistics
                           [rmse_train, mae_train, rmse_inner_val, mae_inner_val,
                            rmse_outer_val, mae_outer_val, rmse_test, mae_test]))))))"

text \<open>Lines 124 to 131: the fold's artifact, then fresh parameters for the next fold.\<close>

definition kfcv_save :: "'m externals \<Rightarrow> nat \<Rightarrow> losses \<Rightarrow> string option \<Rightarrow> ('m, unit) action" where
  "kfcv_save e current_fold ls pretrained_weights s =
     (case out_dir (self s) of
        None \<Rightarrow> raiseA AttributeError s
      | Some d \<Rightarrow>
          bindA (save_model e (path_join d (''model_fold_'' @ string_of_nat current_fold)) ls)
            (\<lambda>_. case pretrained_weights of
                    Some w \<Rightarrow> load_weights e w
                  | None \<Rightarrow> reset_model e) s)"

text \<open>
  One pass of the loop over the folds (lines 85 to 131). The loop rebinds \<open>y_test\<close> to the
  array that \<open>normalize\<close> returns, so the pass returns it for the next one. The four lists
  of losses that the loop appends to are never read and are left out.
\<close>

definition kfcv_fold :: "'m externals \<Rightarrow> features list \<Rightarrow> labels list \<Rightarrow> real \<Rightarrow> string option \<Rightarrow>
    features \<Rightarrow> nat \<Rightarrow> labels \<Rightarrow> ('m, labels) action" where
  "kfcv_fold e folded_xs folded_ys train_ratio pretrained_weights x_test current_fold y_test =
     bindA (external (Call_prepare_data_one_fold folded_xs folded_ys (int current_fold) 4 train_ratio)
              (prepare_data_one_fold e folded_xs folded_ys (int current_fold) 4 train_ratio))
       (\<lambda>(x_train, x_inner_val, x_outer_val, y_train0, y_inner_val0, y_outer_val0).
          bindA (normalize y_train0 [y_inner_val0, y_outer_val0, y_test])
            (\<lambda>(y_train, other_ys).
               case other_ys of
                 [y_inner_val, y_outer_val, y_test'] \<Rightarrow>
                   bindA (call_train_model e x_train y_train x_inner_val y_inner_val x_test y_test'
                            (Some x_outer_val) (Some y_outer_val))
                     (\<lambda>ls. bindA (kfcv_statistics e x_train y_train x_inner_val y_inner_val
                                     x_outer_val y_outer_val x_test y_test')
                        (\<lambda>_. bindA (kfcv_save e current_fold ls pretrained_weights)
                           (\<lambda>_. returnA y_test')))
               | _ \<Rightarrow> raiseA ValueError))"

primrec kfcv_loop :: "'m externals \<Rightarrow> features list \<Rightarrow> labels list \<Rightarrow> real \<Rightarrow> string option \<Rightarrow>
    features \<Rightarrow> nat list \<Rightarrow> labels \<Rightarrow> ('m, unit) action" where
  "kfcv_loop e folded_xs folded_ys train_ratio pretrained_weights x_test [] y_test = returnA ()"
| "kfcv_loop e folded_xs folded_ys train_ratio pretrained_weights x_test (current_fold # rest) y_test =
     bindA (kfcv_fold e folded_xs folded_ys train_ratio pretrained_weights x_test current_fold y_test)
       (\<lambda>y_test'. kfcv_loop e folded_xs folded_ys train_ratio pretrained_weights x_test rest y_test')"

text \<open>Lines 78 to 131: what \<open>kfcv_train\<close> does once the test set is fixed.\<close>

definition kfcv_folds :: "'m externals \<Rightarrow> int \<Rightarrow> real \<Rightarrow> string option \<Rightarrow> features \<Rightarrow> labels \<Rightarrow>
    features \<Rightarrow> labels \<Rightarrow> ('m, unit) action" where
  "kfcv_folds e folds train_ratio pretrained_weights x_train_and_val y_train_and_val x_test y_test =
     bindA (external (Call_prepare_folded_data x_train_and_val y_train_and_val folds 2)
              (prepare_folded_data e x_train_and_val y_train_and_val folds 2))
       (\<lambda>(folded_xs, folded_ys).
          kfcv_loop e folded_xs folded_ys train_ratio pretrained_weights x_test
            [0..<nat folds] y_test)"

definition kfcv_train :: "'m externals \<Rightarrow> features \<Rightarrow> labels \<Rightarrow> string list \<Rightarrow> int \<Rightarrow> real \<Rightarrow> real \<Rightarrow>
    (features \<times> labels) option \<Rightarrow> bool \<Rightarrow> string option \<Rightarrow> ('m, unit) action" where
  "kfcv_train e x y names folds test_split train_ratio test_data save_names pretrained_weights =
     bindA (split_test e x y names (if test_data \<noteq> None then 0 else test_split) save_names)
       (\<lambda>(x_test0, y_test0, x_train_and_val, y_train_and_val).
          case (case test_data of Some td \<Rightarrow> td | None \<Rightarrow> (x_test0, y_test0)) of
            (x_test, y_test) \<Rightarrow>
              kfcv_folds e folds train_ratio pretrained_weights
                x_train_and_val y_train_and_val x_test y_test)"

text \<open>Lines 155 to 172 of \<open>full_train\<close>.\<close>

definition full_statistics :: "'m externals \<Rightarrow> features \<Rightarrow> labels \<Rightarrow> features \<Rightarrow> labels \<Rightarrow>
    features \<Rightarrow> labels \<Rightarrow> ('m, unit) action" where
  "full_statistics e x_train y_train x_inner_val y_inner_val x_test y_test =
     bindA (evaluate e x_train y_train True)
       (\<lambda>(rmse_train, mae_train).
          bindA (if size_of x_inner_val \<noteq> 0 then evaluate e x_inner_val y_inner_val True
                 else returnA (NaN, NaN))
            (\<lambda>(rmse_inner_val, mae_inner_val).
               bindA (if size_of x_test \<noteq> 0 then evaluate e x_test y_test True
                      else returnA (NaN, NaN))
                 (\<lambda>(rmse_test, mae_test).
                    emit (Log (Info_final_statistics
                      [rmse_train, mae_train, rmse_inner_val, mae_inner_val,
                       rmse_test, mae_test])))))"

text \<open>Lines 140 to 175: what \<open>full_train\<close> does once the test set is fixed.\<close>

definition full_fit :: "'m externals \<Rightarrow> real \<Rightarrow> features \<Rightarrow> labels \<Rightarrow> features \<Rightarrow> labels \<Rightarrow>
    ('m, unit) action" where
  "full_fit e train_ratio x_train0 y_train0 x_test y_test0 =
     bindA (emit (Log Info_splitting_training_data))
       (\<lambda>_. bindA (external (Call_split_inner_val_from_train_data x_train0 y_train0 77 train_ratio)
                     (split_inner_val_from_train_data e x_train0 y_train0 77 train_ratio))
          (\<lambda>(x_train, x_inner_val, y_train1, y_inner_val0).
             bindA (normalize y_train1 [y_inner_val0, y_test0])
               (\<lambda>(y_train, other_ys).
                  case other_ys of
                    [y_inner_val, y_test] \<Rightarrow>
                      bindA (emit (Log Info_training_model))
                        (\<lambda>_. bindA (emit (Log (Info_points ''Training data'' (length x_train))))
                        (\<lambda>_. bindA (emit (Log (Info_points ''Inner validation data'' (length x_inner_val))))
                        (\<lambda>_. bindA (emit (Log (Info_points ''Test data'' (length x_test))))
                        (\<lambda>_. bindA (call_train_model e x_train y_train x_inner_val y_inner_val
                                      x_test y_test None None)
                        (\<lambda>ls. bindA (full_statistics e x_train y_train x_inner_val y_inner_val
                                       x_test y_test)
                        (\<lambda>_ s. case out_dir (self s) of
                                  None \<Rightarrow> raiseA AttributeError s
                                | Some d \<Rightarrow> save_model e (path_join d ''model'') ls s))))))
                  | _ \<Rightarrow> raiseA ValueError)))"

definition full_train :: "'m externals \<Rightarrow> features \<Rightarrow> labels \<Rightarrow> string list \<Rightarrow> real \<Rightarrow> real \<Rightarrow>
    (features \<times> labels) option \<Rightarrow> bool \<Rightarrow> ('m, unit) action" where
  "full_train e x y names test_split train_ratio test_data save_names =
     bindA (split_test e x y names (if test_data \<noteq> None then 0 else test_split) save_names)
       (\<lambda>(x_test0, y_test0, x_train, y_train).
          case (case test_data of Some td \<Rightarrow> td | None \<Rightarrow> (x_test0, y_test0)) of
            (x_test, y_test) \<Rightarrow> full_fit e train_ratio x_train y_train x_test y_test)"

section \<open>The specification's vocabulary\<close>

text \<open>The population mean and standard deviation of finite values, as the textbook has them.\<close>

definition population_mean :: "real list \<Rightarrow> real" where
  "population_mean rs = sum_list rs / real (length rs)"

definition population_std :: "real list \<Rightarrow> real" where
  "population_std rs =
     sqrt (sum_list (map (\<lambda>r. (r - population_mean rs)\<^sup>2) rs) / real (length rs))"




text \<open>Which arrays the trace shows handed to the trainer as test labels, in order.\<close>

fun trained_test_labels :: "'m event list \<Rightarrow> labels list" where
  "trained_test_labels [] = []"
| "trained_test_labels (Call_train_model m x_train y_train x_inner_val y_inner_val x_test y_test
      x_outer_val y_outer_val # evs) = y_test # trained_test_labels evs"
| "trained_test_labels (_ # evs) = trained_test_labels evs"

text \<open>The label arrays on which the trace shows the RMSE function called, in order.\<close>

fun rmse_labels :: "'m event list \<Rightarrow> labels list" where
  "rmse_labels [] = []"
| "rmse_labels (Call_calculate_rmse y y_pred # evs) = y # rmse_labels evs"
| "rmse_labels (_ # evs) = rmse_labels evs"

text \<open>The feature arrays that the trace shows given to the model's forward pass.\<close>

fun predicted_features :: "'m event list \<Rightarrow> features list" where
  "predicted_features [] = []"
| "predicted_features (Call_model_predict m x # evs) = x # predicted_features evs"
| "predicted_features (_ # evs) = predicted_features evs"

text \<open>A stretch of trace in which the trainer is not called.\<close>

definition silent :: "'m event list \<Rightarrow> bool" where
  "silent tr \<longleftrightarrow> trained_test_labels tr = []"

text \<open>An action that only adds to the trace, and not a call of the trainer.\<close>

definition quiet :: "('m, 'a) action \<Rightarrow> bool" where
  "quiet f \<longleftrightarrow> (\<forall>s. \<exists>tr. trace (snd (f s)) = trace s @ tr \<and> silent tr)"

text \<open>
  The test labels of the successive folds when each fold standardizes the labels that the
  fold before it left: the first array is standardized once, the second twice, and so on,
  each time with the statistics of that fold's training labels.
\<close>

fun successive_test_labels :: "'m externals \<Rightarrow> features list \<Rightarrow> labels list \<Rightarrow> real \<Rightarrow>
    nat list \<Rightarrow> labels \<Rightarrow> labels list" where
  "successive_test_labels e folded_xs folded_ys train_ratio [] y_test = []"
| "successive_test_labels e folded_xs folded_ys train_ratio (i # rest) y_test =
     (case prepare_data_one_fold e folded_xs folded_ys (int i) 4 train_ratio of
        Inl msg \<Rightarrow> []
      | Inr (x_train, x_inner_val, x_outer_val, y_train, y_inner_val, y_outer_val) \<Rightarrow>
          (let y_test' = map (standardize (np_mean y_train) (np_std y_train)) y_test
           in y_test' # successive_test_labels e folded_xs folded_ys train_ratio rest y_test'))"

section \<open>The metric functions\<close>

text \<open>
  Modelled from the spec: \<open>calculate_rmse\<close> and \<open>calculate_mae\<close> of the module \<open>util\<close>,
  which is not among the sources. The specification has \<open>evaluate\<close> compute "RMSE and MAE
  against \<open>y\<close>": the root of the mean squared difference and the mean absolute difference
  of \<open>y\<close> and the prediction, with numpy's mean, which is NaN over no elements. Arrays of
  different lengths are refused.
\<close>

definition util_calculate_rmse :: "labels \<Rightarrow> labels \<Rightarrow> string + npfloat" where
  "util_calculate_rmse y y_pred =
     (if length y \<noteq> length y_pred then Inl ''shape mismatch''
      else Inr (fsqrt (np_mean (map (\<lambda>(a, b). fsquare (fsub a b)) (zip y y_pred)))))"

definition util_calculate_mae :: "labels \<Rightarrow> labels \<Rightarrow> string + npfloat" where
  "util_calculate_mae y y_pred =
     (if length y \<noteq> length y_pred then Inl ''shape mismatch''
      else Inr (np_mean (map (\<lambda>(a, b). fabs (fsub a b)) (zip y y_pred))))"

text \<open>The test set that the trace shows handed to the trainer, call by call.\<close>

fun trained_test_sets :: "'m event list \<Rightarrow> (features \<times> labels) list" where
  "trained_test_sets [] = []"
| "trained_test_sets (Call_train_model m x_train y_train x_inner_val y_inner_val x_test y_test
      x_outer_val y_outer_val # evs) = (x_test, y_test) # trained_test_sets evs"
| "trained_test_sets (_ # evs) = trained_test_sets evs"

section \<open>A concrete environment\<close>

text \<open>
  For running the module on data: a model that predicts one constant, a trainer that
  fits it to the mean of the training labels, splitters that cut without shuffling, and
  the metric functions above.
\<close>

definition demo_cut :: "real \<Rightarrow> 'a list \<Rightarrow> nat" where
  "demo_cut ratio xs = nat \<lfloor>ratio * real (length xs)\<rfloor>"

definition demo_one_fold :: "features list \<Rightarrow> labels list \<Rightarrow> int \<Rightarrow> int \<Rightarrow> real \<Rightarrow>
    string + (features \<times> features \<times> features \<times> labels \<times> labels \<times> labels)" where
  "demo_one_fold folded_xs folded_ys current_fold seed ratio =
     (if current_fold < 0 \<or> length folded_xs \<le> nat current_fold
         \<or> length folded_ys \<noteq> length folded_xs
      then Inl ''no such fold''
      else let i = nat current_fold;
               xr = concat (take i folded_xs @ drop (Suc i) folded_xs);
               yr = concat (take i folded_ys @ drop (Suc i) folded_ys);
               k = demo_cut ratio xr
           in Inr (take k xr, drop k xr, folded_xs ! i, take k yr, drop k yr, folded_ys ! i))"

definition demo_fit :: "labels \<Rightarrow> real" where
  "demo_fit y = (case np_mean y of Fin r \<Rightarrow> r | _ \<Rightarrow> 0)"

definition demo_ext :: "real externals" where
  "demo_ext =
     \<lparr> model_predict = (\<lambda>m x. Inr (map (\<lambda>row. [Fin m]) x)),
       model_load_weights = (\<lambda>m path. Inr 0),
       calculate_rmse = util_calculate_rmse,
       calculate_mae = util_calculate_mae,
       split_test_from_train_and_val = (\<lambda>x y names seed ratio.
          let k = demo_cut ratio x
          in Inr (take k x, take k y, drop k x, drop k y, take k names, drop k names)),
       prepare_folded_data = (\<lambda>x y folds seed.
          if folds \<le> 0 then Inl ''no folds''
          else let c = length x div nat folds
               in Inr (map (\<lambda>i. take c (drop (i * c) x)) [0..<nat folds],
                       map (\<lambda>i. take c (drop (i * c) y)) [0..<nat folds])),
       prepare_data_one_fold = demo_one_fold,
       split_inner_val_from_train_data = (\<lambda>x y seed ratio.
          let k = demo_cut ratio x in Inr (take k x, drop k x, take k y, drop k y)),
       train_model = (\<lambda>m x_train y_train x_inner_val y_inner_val x_test y_test x_outer_val y_outer_val.
          Inr (demo_fit y_train, ([Fin 0], [Fin 0], Fin 0, Fin 0))),
       cnn_save_model = (\<lambda>m ls p f.
          Inr (f(p @ ''.json'' \<mapsto> Blob [], p @ ''.h5'' \<mapsto> Blob (case m of None \<Rightarrow> [] | Some w \<Rightarrow> [w])))),
       cnn_reset_model = (\<lambda>m. Inr 0) \<rparr>"

definition demo_world :: "real world" where
  "demo_world =
     \<lparr> self = \<lparr> model = Some 0, out_dir = Some ''out'', y_mean = None, y_std = None \<rparr>,
       fs = Map.empty,
       trace = [] \<rparr>"

definition demo_fitted :: "real world" where
  "demo_fitted =
     \<lparr> self = \<lparr> model = Some 1, out_dir = Some ''out'',
                y_mean = Some (Fin 10), y_std = Some (Fin 2) \<rparr>,
       fs = Map.empty,
       trace = [] \<rparr>"

text \<open>A Predictor as its constructor leaves it: no model, no statistics.\<close>

definition demo_fresh :: "real world" where
  "demo_fresh =
     \<lparr> self = \<lparr> model = None, out_dir = None, y_mean = None, y_std = None \<rparr>,
       fs = Map.empty,
       trace = [] \<rparr>"

section \<open>Basic facts\<close>

lemma bindA_returnA [simp]: "bindA (returnA a) g s = g a s"
  by (simp add: bindA_def returnA_def)

lemma bindA_raiseA [simp]: "bindA (raiseA err) g s = (Inl err, s)"
  by (simp add: bindA_def raiseA_def)

lemma bindA_emit [simp]: "bindA (emit ev) g s = g () (s\<lparr>trace := trace s @ [ev]\<rparr>)"
  by (simp add: bindA_def emit_def)

lemma bindA_external_Inr [simp]:
  "bindA (external ev (Inr a)) g s = g a (s\<lparr>trace := trace s @ [ev]\<rparr>)"
  by (simp add: bindA_def external_def)

lemma bindA_external_Inl [simp]:
  "bindA (external ev (Inl msg)) g s = (Inl (ExternalError msg), s\<lparr>trace := trace s @ [ev]\<rparr>)"
  by (simp add: bindA_def external_def)

lemma fmul_NaN_right [simp]: "fmul a NaN = NaN"
  by (cases a) simp_all

lemma fsum_Fin: "fsum (map Fin rs) = Fin (sum_list rs)"
  by (induction rs) simp_all

lemma np_mean_Fin: "rs \<noteq> [] \<Longrightarrow> np_mean (map Fin rs) = Fin (population_mean rs)"
  by (simp add: np_mean_def fsum_Fin population_mean_def)

lemma sum_list_squares_nonneg: "0 \<le> sum_list (map (\<lambda>r. (r - c)\<^sup>2) rs)" for c :: real
  by (induction rs) simp_all

lemma np_std_Fin:
  assumes "rs \<noteq> []"
  shows "np_std (map Fin rs) = Fin (population_std rs)"
proof -
  let ?mu = "population_mean rs"
  have dev: "map (\<lambda>v. fsquare (fabs (fsub v (Fin ?mu)))) (map Fin rs)
               = map Fin (map (\<lambda>r. (r - ?mu)\<^sup>2) rs)"
    by (simp add: fsub_def power2_eq_square)
  have nonneg: "0 \<le> population_mean (map (\<lambda>r. (r - ?mu)\<^sup>2) rs)"
    unfolding population_mean_def
    by (intro divide_nonneg_nonneg sum_list_squares_nonneg) simp
  have mu: "np_mean (map Fin rs) = Fin ?mu"
    using assms by (rule np_mean_Fin)
  have "np_std (map Fin rs) = fsqrt (np_mean (map Fin (map (\<lambda>r. (r - ?mu)\<^sup>2) rs)))"
    unfolding np_std_def mu dev ..
  also have "\<dots> = fsqrt (Fin (population_mean (map (\<lambda>r. (r - ?mu)\<^sup>2) rs)))"
    using assms by (subst np_mean_Fin) simp_all
  also have "\<dots> = Fin (sqrt (population_mean (map (\<lambda>r. (r - ?mu)\<^sup>2) rs)))"
    using nonneg by simp
  also have "\<dots> = Fin (population_std rs)"
    by (simp add: population_std_def population_mean_def)
  finally show ?thesis .
qed

lemma normalize_eq:
  "normalize y_train other_ys s =
     (Inr (map (standardize (np_mean y_train) (np_std y_train)) y_train,
           map (map (standardize (np_mean y_train) (np_std y_train))) other_ys),
      s\<lparr>self := (self s)\<lparr>y_mean := Some (np_mean y_train), y_std := Some (np_std y_train)\<rparr>,
        trace := trace s @ [Log (Info_mean_std (np_mean y_train) (np_std y_train))]\<rparr>)"
  by (simp add: normalize_def Let_def returnA_def)

lemma predict_forward:
  assumes "model (self s) = Some m" and "model_predict e m x = Inr out"
  shows "predict e x nrm s =
     ((if nrm then Inr (concat out)
       else (case y_mean (self s) of None \<Rightarrow> Inl MissingMeanStd
             | Some mu \<Rightarrow> (case y_std (self s) of None \<Rightarrow> Inl MissingMeanStd
                 | Some sd \<Rightarrow> Inr (map (denormalize mu sd) (concat out))))),
      s\<lparr>trace := trace s @ [Call_model_predict m x]\<rparr>)"
  using assms
  by (simp add: predict_def Let_def returnA_def raiseA_def split: option.splits)

lemma predict_cases:
  "predict e x nrm s = (r, s') \<Longrightarrow>
     (model (self s) = None \<and> r = Inl AttributeError \<and> s' = s) \<or>
     (\<exists>m. model (self s) = Some m \<and> s' = s\<lparr>trace := trace s @ [Call_model_predict m x]\<rparr> \<and>
        ((\<exists>msg. model_predict e m x = Inl msg \<and> r = Inl (ExternalError msg)) \<or>
         (\<exists>out. model_predict e m x = Inr out \<and>
            r = (if nrm then Inr (concat out)
       else (case y_mean (self s) of None \<Rightarrow> Inl MissingMeanStd
             | Some mu \<Rightarrow> (case y_std (self s) of None \<Rightarrow> Inl MissingMeanStd
                 | Some sd \<Rightarrow> Inr (map (denormalize mu sd) (concat out))))))))"
  by (cases "model (self s)"; cases "model_predict e (the (model (self s))) x")
     (auto simp: predict_def Let_def returnA_def raiseA_def split: option.splits)


lemma predict_self:
  assumes "predict e x nrm s = (r, s')"
  shows "self s' = self s"
  using predict_cases [OF assms] by auto

lemma evaluate_after_predict:
  assumes "predict e x nrm s = (Inr y_pred, s1)"
    and "calculate_rmse e y y_pred = Inr rmse"
    and "calculate_mae e y y_pred = Inr mae"
  shows "evaluate e x y nrm s =
     (if nrm then rescale rmse mae else returnA (rmse, mae))
       (s1\<lparr>trace := trace s1 @ [Call_calculate_rmse y y_pred, Call_calculate_mae y y_pred]\<rparr>)"
  using assms by (simp add: evaluate_def bindA_def external_def)

section \<open>normalize\<close>

text \<open>
  C1: \<open>normalize\<close> stores the mean and the standard deviation of \<open>y_train\<close> alone
  (whatever the other arrays are), and returns \<open>y_train\<close> and every other array
  standardized with these two numbers. On finite labels they are the population mean and
  the population standard deviation.
\<close>
theorem normalize_uses_train_statistics:
  "y_mean (self (snd (normalize y_train other_ys s))) = Some (np_mean y_train) \<and>
   y_std (self (snd (normalize y_train other_ys s))) = Some (np_std y_train) \<and>
   fst (normalize y_train other_ys s) =
     Inr (map (standardize (np_mean y_train) (np_std y_train)) y_train,
          map (map (standardize (np_mean y_train) (np_std y_train))) other_ys) \<and>
   self (snd (normalize y_train other_ys' s)) = self (snd (normalize y_train other_ys s)) \<and>
   (rs \<noteq> [] \<and> y_train = map Fin rs \<longrightarrow>
      np_mean y_train = Fin (population_mean rs) \<and> np_std y_train = Fin (population_std rs))"
  by (simp add: normalize_eq np_mean_Fin np_std_Fin)

theorem normalize_uses_train_statistics_witness:
  "[1, 3] \<noteq> ([] :: real list) \<and> [Fin 1, Fin 3] = map Fin [1, 3] \<and>
   y_mean (self (snd (normalize [Fin 1, Fin 3] [[Fin 5], []] demo_world))) = Some (Fin 2) \<and>
   y_std (self (snd (normalize [Fin 1, Fin 3] [[Fin 5], []] demo_world))) = Some (Fin 1) \<and>
   fst (normalize [Fin 1, Fin 3] [[Fin 5], []] demo_world) = Inr ([Fin (- 1), Fin 1], [[Fin 3], []])"
proof -
  have pm: "population_mean [1, 3] = 2"
    by (simp add: population_mean_def)
  have ps: "population_std [1, 3] = 1"
    by (simp add: population_std_def pm)
  show ?thesis
    using normalize_uses_train_statistics
      [of "[Fin 1, Fin 3]" "[[Fin 5], []]" demo_world "[]" "[1, 3]"]
    by (simp add: pm ps standardize_def fsub_def)
qed

section \<open>evaluate\<close>

text \<open>
  C2: when the prediction and the two metric functions return, \<open>evaluate\<close> with
  \<open>norm=True\<close> returns each raw metric multiplied by \<open>y_std ** 2\<close>, and with
  \<open>norm=False\<close> the raw metrics as they are.
\<close>
theorem evaluate_rescales_by_square_of_std:
  assumes "predict e x nrm s = (Inr y_pred, s1)"
    and "calculate_rmse e y y_pred = Inr rmse"
    and "calculate_mae e y y_pred = Inr mae"
    and "y_std (self s) = Some sd"
  shows "fst (evaluate e x y nrm s) =
     Inr (if nrm then (fmul (fsquare sd) rmse, fmul (fsquare sd) mae) else (rmse, mae))"
proof -
  have "y_std (self s1) = Some sd"
    using predict_self [OF assms(1)] assms(4) by simp
  then show ?thesis
    by (simp add: evaluate_after_predict [OF assms(1-3)] rescale_def returnA_def)
qed


theorem evaluate_rescales_by_square_of_std_witness:
  "predict demo_ext [[0]] True demo_fitted =
     (Inr [Fin 1], demo_fitted\<lparr>trace := [Call_model_predict 1 [[0]]]\<rparr>) \<and>
   calculate_rmse demo_ext [Fin 2] [Fin 1] = Inr (Fin 1) \<and>
   calculate_mae demo_ext [Fin 2] [Fin 1] = Inr (Fin 1) \<and>
   y_std (self demo_fitted) = Some (Fin 2) \<and>
   fst (evaluate demo_ext [[0]] [Fin 2] True demo_fitted) = Inr (Fin 4, Fin 4)"
proof -
  have p: "predict demo_ext [[0]] True demo_fitted =
     (Inr [Fin 1], demo_fitted\<lparr>trace := [Call_model_predict 1 [[0]]]\<rparr>)"
    by (simp add: predict_forward [where m = 1 and out = "[[Fin 1]]"] demo_fitted_def demo_ext_def)
  have r: "calculate_rmse demo_ext [Fin 2] [Fin 1] = Inr (Fin 1)"
    by (simp add: demo_ext_def util_calculate_rmse_def np_mean_def fsub_def)
  have m: "calculate_mae demo_ext [Fin 2] [Fin 1] = Inr (Fin 1)"
    by (simp add: demo_ext_def util_calculate_mae_def np_mean_def fsub_def)
  have sd: "y_std (self demo_fitted) = Some (Fin 2)"
    by (simp add: demo_fitted_def)
  show ?thesis
    using evaluate_rescales_by_square_of_std [OF p r m sd] p r m sd by simp
qed

section \<open>predict\<close>

text \<open>
  C5: \<open>predict\<close> with \<open>norm=False\<close> runs the model's forward pass first and checks the
  statistics after it. It raises the usage error exactly when the forward pass has returned
  and \<open>y_mean\<close> or \<open>y_std\<close> is unset; when the forward pass has returned and both are set,
  it returns the flattened output denormalized as \<open>y * y_std + y_mean\<close>. Without a model,
  or when the forward pass raises, that error is the one the caller sees.
\<close>

theorem predict_raises_iff_statistics_unset:
  "(fst (predict e x False s) = Inl MissingMeanStd \<longleftrightarrow>
      (\<exists>m out. model (self s) = Some m \<and> model_predict e m x = Inr out) \<and>
      (y_mean (self s) = None \<or> y_std (self s) = None)) \<and>
   (model (self s) = Some m \<and> model_predict e m x = Inr out \<and>
    y_mean (self s) = Some mu \<and> y_std (self s) = Some sd \<longrightarrow>
      fst (predict e x False s) = Inr (map (denormalize mu sd) (concat out))) \<and>
   (model (self s) = None \<longrightarrow> fst (predict e x False s) = Inl AttributeError) \<and>
   (model (self s) = Some m \<and> model_predict e m x = Inl msg \<longrightarrow>
      fst (predict e x False s) = Inl (ExternalError msg))"
proof -
  have none: "fst (predict e x False s) = Inl AttributeError" if "model (self s) = None"
    using that by (simp add: predict_def raiseA_def)
  have fails: "fst (predict e x False s) = Inl (ExternalError msg')"
    if "model (self s) = Some m'" and "model_predict e m' x = Inl msg'" for m' msg'
    using that by (simp add: predict_def)
  have returns: "fst (predict e x False s) =
      (case y_mean (self s) of None \<Rightarrow> Inl MissingMeanStd
       | Some mu \<Rightarrow> (case y_std (self s) of None \<Rightarrow> Inl MissingMeanStd
           | Some sd \<Rightarrow> Inr (map (denormalize mu sd) (concat out'))))"
    if "model (self s) = Some m'" and "model_predict e m' x = Inr out'" for m' out'
    using that by (simp add: predict_forward)
  have iff: "fst (predict e x False s) = Inl MissingMeanStd \<longleftrightarrow>
      (\<exists>m out. model (self s) = Some m \<and> model_predict e m x = Inr out) \<and>
      (y_mean (self s) = None \<or> y_std (self s) = None)"
  proof (cases "model (self s)")
    case None
    then show ?thesis by (simp add: none)
  next
    case (Some m')
    show ?thesis
    proof (cases "model_predict e m' x")
      case (Inl msg')
      with Some show ?thesis by (simp add: fails)
    next
      case (Inr out')
      with Some show ?thesis by (simp add: returns split: option.splits)
    qed
  qed
  from iff none fails returns show ?thesis
    by simp
qed

theorem predict_raises_iff_statistics_unset_witness:
  "model (self demo_fitted) = Some 1 \<and>
   model_predict demo_ext 1 [[0], [0]] = Inr [[Fin 1], [Fin 1]] \<and>
   y_mean (self demo_fitted) = Some (Fin 10) \<and> y_std (self demo_fitted) = Some (Fin 2) \<and>
   fst (predict demo_ext [[0], [0]] False demo_fitted) = Inr [Fin 12, Fin 12] \<and>
   model (self demo_world) = Some 0 \<and>
   model_predict demo_ext 0 [[0], [0]] = Inr [[Fin 0], [Fin 0]] \<and>
   y_mean (self demo_world) = None \<and>
   fst (predict demo_ext [[0], [0]] False demo_world) = Inl MissingMeanStd \<and>
   model (self demo_fresh) = None \<and>
   fst (predict demo_ext [[0], [0]] False demo_fresh) = Inl AttributeError \<and>
   model_predict (demo_ext\<lparr>model_predict := \<lambda>m x. Inl ''no input''\<rparr>) 1 [[0], [0]]
     = Inl ''no input'' \<and>
   fst (predict (demo_ext\<lparr>model_predict := \<lambda>m x. Inl ''no input''\<rparr>) [[0], [0]] False
          demo_fitted) = Inl (ExternalError ''no input'')"
proof -
  have a: "model (self demo_fitted) = Some 1"
    by (simp add: demo_fitted_def)
  have b: "model_predict demo_ext 1 [[0], [0]] = Inr [[Fin 1], [Fin 1]]"
    by (simp add: demo_ext_def)
  have c: "model (self demo_world) = Some 0"
    by (simp add: demo_world_def)
  have d: "model_predict demo_ext 0 [[0], [0]] = Inr [[Fin 0], [Fin 0]]"
    by (simp add: demo_ext_def)
  have f: "model (self demo_fresh) = None"
    by (simp add: demo_fresh_def)
  have g: "model_predict (demo_ext\<lparr>model_predict := \<lambda>m x. Inl ''no input''\<rparr>) 1 [[0], [0]]
     = Inl ''no input''"
    by simp
  have st: "y_mean (self demo_fitted) = Some (Fin 10)" "y_std (self demo_fitted) = Some (Fin 2)"
    "y_mean (self demo_world) = None"
    by (simp_all add: demo_fitted_def demo_world_def)
  have 1: "fst (predict demo_ext [[0], [0]] False demo_fitted) = Inr [Fin 12, Fin 12]"
    using predict_raises_iff_statistics_unset
      [of demo_ext "[[0], [0]]" demo_fitted 1 "[[Fin 1], [Fin 1]]" "Fin 10" "Fin 2"] a b st
    by (simp add: denormalize_def)
  have 2: "fst (predict demo_ext [[0], [0]] False demo_world) = Inl MissingMeanStd"
    using predict_raises_iff_statistics_unset [of demo_ext "[[0], [0]]" demo_world] c d st
    by simp
  have 3: "fst (predict demo_ext [[0], [0]] False demo_fresh) = Inl AttributeError"
    using predict_raises_iff_statistics_unset [of demo_ext "[[0], [0]]" demo_fresh] f
    by simp
  have 4: "fst (predict (demo_ext\<lparr>model_predict := \<lambda>m x. Inl ''no input''\<rparr>) [[0], [0]] False
          demo_fitted) = Inl (ExternalError ''no input'')"
    using predict_raises_iff_statistics_unset
      [of "demo_ext\<lparr>model_predict := \<lambda>m x. Inl ''no input''\<rparr>" "[[0], [0]]" demo_fitted
          1 _ _ _ "''no input''"] a g
    by simp
  from a b c d f g st 1 2 3 4 show ?thesis
    by simp
qed

text \<open>
  C5 as it is stated fails where the forward pass does not return: a Predictor fresh from
  its constructor has no statistics, and \<open>predict\<close> raises the AttributeError of the call
  on the missing model, not the usage error.
\<close>

theorem predict_without_model_counterexample:
  "y_mean (self demo_fresh) = None \<and> y_std (self demo_fresh) = None \<and>
   fst (predict demo_ext [[0]] False demo_fresh) = Inl AttributeError"
  by (simp add: predict_def raiseA_def demo_fresh_def)

text \<open>
  C6: with the statistics set, \<open>predict(x, norm=False)\<close> is \<open>predict(x, norm=True)\<close>
  times \<open>y_std\<close> plus \<open>y_mean\<close>, element by element.
\<close>

theorem predict_denormalizes_normalized_prediction:
  assumes "y_mean (self s) = Some mu" and "y_std (self s) = Some sd"
    and "fst (predict e x True s) = Inr y_norm"
  shows "fst (predict e x False s) = Inr (map (\<lambda>v. fadd (fmul v sd) mu) y_norm)"
proof -
  obtain r s' where p: "predict e x True s = (r, s')"
    by (cases "predict e x True s")
  with assms(3) have r: "r = Inr y_norm" by simp
  from predict_cases [OF p] r obtain m out
    where m: "model (self s) = Some m" and out: "model_predict e m x = Inr out"
      and y: "y_norm = concat out"
    by auto
  show ?thesis
    using assms(1,2) y by (simp add: predict_forward [OF m out] denormalize_def)
qed

theorem predict_denormalizes_normalized_prediction_witness:
  "y_mean (self demo_fitted) = Some (Fin 10) \<and> y_std (self demo_fitted) = Some (Fin 2) \<and>
   fst (predict demo_ext [[0], [0]] True demo_fitted) = Inr [Fin 1, Fin 1] \<and>
   fst (predict demo_ext [[0], [0]] False demo_fitted) = Inr [Fin 12, Fin 12]"
proof -
  have st: "y_mean (self demo_fitted) = Some (Fin 10)" "y_std (self demo_fitted) = Some (Fin 2)"
    by (simp_all add: demo_fitted_def)
  have p: "fst (predict demo_ext [[0], [0]] True demo_fitted) = Inr [Fin 1, Fin 1]"
    by (simp add: predict_forward [where m = 1 and out = "[[Fin 1], [Fin 1]]"]
        demo_fitted_def demo_ext_def)
  show ?thesis
    using predict_denormalizes_normalized_prediction [OF st p] st p by simp
qed

text \<open>
  C10: \<open>predict\<close> with \<open>norm=True\<close> never raises the usage error and returns the
  flattened output of the forward pass, whether the statistics are set or not. So does
  \<open>evaluate\<close> with \<open>norm=True\<close>: with \<open>y_std\<close> unset it gets as far as the rescaling,
  where \<open>None ** 2.0\<close> is a TypeError.
\<close>

theorem normalized_predict_skips_statistics_check:
  "fst (predict e x True s) \<noteq> Inl MissingMeanStd \<and>
   (model (self s) = Some m \<and> model_predict e m x = Inr out \<longrightarrow>
      fst (predict e x True s) = Inr (concat out)) \<and>
   fst (evaluate e x y True s) \<noteq> Inl MissingMeanStd \<and>
   (y_std (self s) = None \<and> fst (predict e x True s) = Inr y_pred \<and>
    calculate_rmse e y y_pred = Inr rmse \<and> calculate_mae e y y_pred = Inr mae \<longrightarrow>
      fst (evaluate e x y True s) = Inl TypeError)"
proof -
  obtain r s1 where p: "predict e x True s = (r, s1)"
    by (cases "predict e x True s")
  have self1: "self s1 = self s"
    by (rule predict_self [OF p])
  have r: "r \<noteq> Inl MissingMeanStd"
    using predict_cases [OF p] by auto
  have fwd: "fst (predict e x True s) = Inr (concat out)"
    if "model (self s) = Some m" and "model_predict e m x = Inr out"
    using that by (simp add: predict_forward)
  have ev: "fst (evaluate e x y True s) \<noteq> Inl MissingMeanStd"
    using r p
    by (cases r; cases "y_std (self s1)")
       (auto simp: evaluate_def bindA_def external_def rescale_def raiseA_def returnA_def
             split: sum.splits)
  have ty: "fst (evaluate e x y True s) = Inl TypeError"
    if "y_std (self s) = None" and "fst (predict e x True s) = Inr y_pred"
      and "calculate_rmse e y y_pred = Inr rmse" and "calculate_mae e y y_pred = Inr mae"
  proof -
    from that(2) p have "predict e x True s = (Inr y_pred, s1)" by simp
    from evaluate_after_predict [OF this that(3,4)] that(1) self1
    show ?thesis by (simp add: rescale_def raiseA_def)
  qed
  from r p fwd ev ty show ?thesis by auto
qed

theorem normalized_predict_skips_statistics_check_witness:
  "model (self demo_world) = Some 0 \<and>
   model_predict demo_ext 0 [[0]] = Inr [[Fin 0]] \<and>
   y_std (self demo_world) = None \<and>
   fst (predict demo_ext [[0]] True demo_world) = Inr [Fin 0] \<and>
   calculate_rmse demo_ext [Fin 1] [Fin 0] = Inr (Fin 1) \<and>
   calculate_mae demo_ext [Fin 1] [Fin 0] = Inr (Fin 1) \<and>
   fst (evaluate demo_ext [[0]] [Fin 1] True demo_world) = Inl TypeError"
proof -
  have a: "model (self demo_world) = Some 0" "y_std (self demo_world) = None"
    by (simp_all add: demo_world_def)
  have b: "model_predict demo_ext 0 [[0]] = Inr [[Fin 0]]"
    by (simp add: demo_ext_def)
  have r: "calculate_rmse demo_ext [Fin 1] [Fin 0] = Inr (Fin 1)"
    by (simp add: demo_ext_def util_calculate_rmse_def np_mean_def fsub_def)
  have m: "calculate_mae demo_ext [Fin 1] [Fin 0] = Inr (Fin 1)"
    by (simp add: demo_ext_def util_calculate_mae_def np_mean_def fsub_def)
  show ?thesis
    using normalized_predict_skips_statistics_check
      [of demo_ext "[[0]]" demo_world 0 "[[Fin 0]]" "[Fin 1]" "[Fin 0]" "Fin 1" "Fin 1"]
      a b r m
    by simp
qed



section \<open>save\_model\<close>














section \<open>Traces\<close>

lemma trained_test_labels_append:
  "trained_test_labels (a @ b) = trained_test_labels a @ trained_test_labels b"
  by (induction a rule: trained_test_labels.induct) simp_all

lemma rmse_labels_append: "rmse_labels (a @ b) = rmse_labels a @ rmse_labels b"
  by (induction a rule: rmse_labels.induct) simp_all

lemma predicted_features_append:
  "predicted_features (a @ b) = predicted_features a @ predicted_features b"
  by (induction a rule: predicted_features.induct) simp_all

lemma trained_test_sets_append:
  "trained_test_sets (a @ b) = trained_test_sets a @ trained_test_sets b"
  by (induction a rule: trained_test_sets.induct) simp_all

lemma trained_test_labels_sets: "trained_test_labels tr = map snd (trained_test_sets tr)"
  by (induction tr rule: trained_test_sets.induct) simp_all

lemma silent_sets: "silent tr \<Longrightarrow> trained_test_sets tr = []"
  by (simp add: silent_def trained_test_labels_sets)

lemma silent_append: "silent (a @ b) \<longleftrightarrow> silent a \<and> silent b"
  by (simp add: silent_def trained_test_labels_append)

lemma silent_Nil: "silent []"
  by (simp add: silent_def)

lemma bindA_InrE:
  assumes "bindA f g s = (Inr b, s')"
  obtains a s1 where "f s = (Inr a, s1)" and "g a s1 = (Inr b, s')"
proof (cases "f s")
  case (Pair r s1)
  with assms show ?thesis
    by (cases r) (auto simp: bindA_def intro: that)
qed

lemma external_InrD:
  assumes "external ev r s = (Inr a, s')"
  shows "r = Inr a \<and> s' = s\<lparr>trace := trace s @ [ev]\<rparr>"
  using assms by (cases r) (auto simp: external_def)

lemma rescale_state: "rescale a b s = (q, s') \<Longrightarrow> s' = s"
  by (auto simp: rescale_def raiseA_def returnA_def split: option.splits)

lemma evaluate_InrD:
  assumes "evaluate e x y nrm s = (Inr r, s')"
  shows "\<exists>m y_pred. s' = s\<lparr>trace := trace s @
           [Call_model_predict m x, Call_calculate_rmse y y_pred, Call_calculate_mae y y_pred]\<rparr>"
proof -
  from assms obtain y_pred s1 where p: "predict e x nrm s = (Inr y_pred, s1)"
    and rest1: "bindA (external (Call_calculate_rmse y y_pred) (calculate_rmse e y y_pred))
          (\<lambda>rmse. bindA (external (Call_calculate_mae y y_pred) (calculate_mae e y y_pred))
             (\<lambda>mae. if nrm then rescale rmse mae else returnA (rmse, mae))) s1 = (Inr r, s')"
    unfolding evaluate_def by (rule bindA_InrE)
  from predict_cases [OF p] obtain m
    where s1: "s1 = s\<lparr>trace := trace s @ [Call_model_predict m x]\<rparr>"
    by auto
  from rest1 obtain rmse s2
    where e2: "external (Call_calculate_rmse y y_pred) (calculate_rmse e y y_pred) s1 = (Inr rmse, s2)"
      and rest2: "bindA (external (Call_calculate_mae y y_pred) (calculate_mae e y y_pred))
             (\<lambda>mae. if nrm then rescale rmse mae else returnA (rmse, mae)) s2 = (Inr r, s')"
    by (rule bindA_InrE)
  from rest2 obtain mae s3
    where e3: "external (Call_calculate_mae y y_pred) (calculate_mae e y y_pred) s2 = (Inr mae, s3)"
      and rest3: "(if nrm then rescale rmse mae else returnA (rmse, mae)) s3 = (Inr r, s')"
    by (rule bindA_InrE)
  have "s' = s3"
    using rest3 by (auto simp: returnA_def dest: rescale_state split: if_splits)
  with external_InrD [OF e2] external_InrD [OF e3] s1 show ?thesis
    by auto
qed

lemma evaluate_fst_cong:
  assumes "self s = self t"
  shows "fst (evaluate e x y nrm s) = fst (evaluate e x y nrm t)"
  using assms
  by (auto simp: evaluate_def predict_def bindA_def external_def rescale_def
      returnA_def raiseA_def Let_def split: option.splits sum.splits)


section \<open>The metrics of a fold\<close>

lemma guarded_evaluate_InrD:
  assumes "(if c then evaluate e x y True else returnA (NaN, NaN)) s = (Inr r, s')"
  shows "\<exists>tr. trace s' = trace s @ tr \<and> self s' = self s \<and> fs s' = fs s \<and>
           (if c then fst (evaluate e x y True s) = Inr r else r = (NaN, NaN)) \<and>
           rmse_labels tr = (if c then [y] else []) \<and>
           predicted_features tr = (if c then [x] else []) \<and> silent tr"
proof (cases c)
  case True
  with assms have ev: "evaluate e x y True s = (Inr r, s')" by simp
  from evaluate_InrD [OF ev] obtain m y_pred where
    "s' = s\<lparr>trace := trace s @
           [Call_model_predict m x, Call_calculate_rmse y y_pred, Call_calculate_mae y y_pred]\<rparr>"
    by blast
  with True ev show ?thesis
    by (simp add: silent_def)
next
  case False
  with assms show ?thesis
    by (simp add: returnA_def silent_def)
qed

lemma kfcv_statistics_InrD:
  assumes "kfcv_statistics e x_train y_train x_inner_val y_inner_val x_outer_val y_outer_val
             x_test y_test s = (Inr (), s')"
  shows "\<exists>tr a b c d.
      trace s' = trace s @ tr @
        [Log (Info_final_statistics [fst a, snd a, fst b, snd b, fst c, snd c, fst d, snd d])] \<and>
      self s' = self s \<and> fs s' = fs s \<and>
      fst (evaluate e x_train y_train True s) = Inr a \<and>
      (if size_of x_inner_val \<noteq> 0 then fst (evaluate e x_inner_val y_inner_val True s) = Inr b
       else b = (NaN, NaN)) \<and>
      fst (evaluate e x_outer_val y_outer_val True s) = Inr c \<and>
      (if size_of x_test \<noteq> 0 then fst (evaluate e x_test y_test True s) = Inr d
       else d = (NaN, NaN)) \<and>
      rmse_labels tr =
        [y_train] @ (if size_of x_inner_val \<noteq> 0 then [y_inner_val] else []) @
        [y_outer_val] @ (if size_of x_test \<noteq> 0 then [y_test] else []) \<and>
      predicted_features tr =
        [x_train] @ (if size_of x_inner_val \<noteq> 0 then [x_inner_val] else []) @
        [x_outer_val] @ (if size_of x_test \<noteq> 0 then [x_test] else []) \<and>
      silent tr"
proof -
  from assms obtain a s1 where
    1: "(if True then evaluate e x_train y_train True else returnA (NaN, NaN)) s = (Inr a, s1)"
    and r1: "(case a of (rmse_train, mae_train) \<Rightarrow>
          bindA (if size_of x_inner_val \<noteq> 0 then evaluate e x_inner_val y_inner_val True
                 else returnA (NaN, NaN))
            (\<lambda>(rmse_inner_val, mae_inner_val).
               bindA (evaluate e x_outer_val y_outer_val True)
                 (\<lambda>(rmse_outer_val, mae_outer_val).
                    bindA (if size_of x_test \<noteq> 0 then evaluate e x_test y_test True
                           else returnA (NaN, NaN))
                      (\<lambda>(rmse_test, mae_test).
                         emit (Log (Info_final_statistics
                           [rmse_train, mae_train, rmse_inner_val, mae_inner_val,
                            rmse_outer_val, mae_outer_val, rmse_test, mae_test])))))) s1 = (Inr (), s')"
    unfolding kfcv_statistics_def by (rule bindA_InrE) simp
  from r1 obtain b s2 where
    2: "(if size_of x_inner_val \<noteq> 0 then evaluate e x_inner_val y_inner_val True
         else returnA (NaN, NaN)) s1 = (Inr b, s2)"
    and r2: "(case b of (rmse_inner_val, mae_inner_val) \<Rightarrow>
               bindA (evaluate e x_outer_val y_outer_val True)
                 (\<lambda>(rmse_outer_val, mae_outer_val).
                    bindA (if size_of x_test \<noteq> 0 then evaluate e x_test y_test True
                           else returnA (NaN, NaN))
                      (\<lambda>(rmse_test, mae_test).
                         emit (Log (Info_final_statistics
                           [fst a, snd a, rmse_inner_val, mae_inner_val,
                            rmse_outer_val, mae_outer_val, rmse_test, mae_test]))))) s2 = (Inr (), s')"
    by (cases a) (auto elim: bindA_InrE)
  from r2 obtain c s3 where
    3: "(if True then evaluate e x_outer_val y_outer_val True else returnA (NaN, NaN)) s2 = (Inr c, s3)"
    and r3: "(case c of (rmse_outer_val, mae_outer_val) \<Rightarrow>
                    bindA (if size_of x_test \<noteq> 0 then evaluate e x_test y_test True
                           else returnA (NaN, NaN))
                      (\<lambda>(rmse_test, mae_test).
                         emit (Log (Info_final_statistics
                           [fst a, snd a, fst b, snd b,
                            rmse_outer_val, mae_outer_val, rmse_test, mae_test])))) s3 = (Inr (), s')"
    by (cases b) (auto elim: bindA_InrE)
  from r3 obtain d s4 where
    4: "(if size_of x_test \<noteq> 0 then evaluate e x_test y_test True
         else returnA (NaN, NaN)) s3 = (Inr d, s4)"
    and r4: "emit (Log (Info_final_statistics
               [fst a, snd a, fst b, snd b, fst c, snd c, fst d, snd d])) s4 = (Inr (), s')"
    by (cases c) (auto elim!: bindA_InrE)
  from guarded_evaluate_InrD [OF 1] obtain tr1 where
    t1: "trace s1 = trace s @ tr1" "self s1 = self s" "fs s1 = fs s"
      "fst (evaluate e x_train y_train True s) = Inr a"
      "rmse_labels tr1 = [y_train]" "predicted_features tr1 = [x_train]" "silent tr1"
    by auto
  from guarded_evaluate_InrD [OF 2] obtain tr2 where
    t2: "trace s2 = trace s1 @ tr2" "self s2 = self s1" "fs s2 = fs s1"
      "if size_of x_inner_val \<noteq> 0 then fst (evaluate e x_inner_val y_inner_val True s1) = Inr b
       else b = (NaN, NaN)"
      "rmse_labels tr2 = (if size_of x_inner_val \<noteq> 0 then [y_inner_val] else [])"
      "predicted_features tr2 = (if size_of x_inner_val \<noteq> 0 then [x_inner_val] else [])"
      "silent tr2"
    by blast
  from guarded_evaluate_InrD [OF 3] obtain tr3 where
    t3: "trace s3 = trace s2 @ tr3" "self s3 = self s2" "fs s3 = fs s2"
      "fst (evaluate e x_outer_val y_outer_val True s2) = Inr c"
      "rmse_labels tr3 = [y_outer_val]" "predicted_features tr3 = [x_outer_val]" "silent tr3"
    by auto
  from guarded_evaluate_InrD [OF 4] obtain tr4 where
    t4: "trace s4 = trace s3 @ tr4" "self s4 = self s3" "fs s4 = fs s3"
      "if size_of x_test \<noteq> 0 then fst (evaluate e x_test y_test True s3) = Inr d
       else d = (NaN, NaN)"
      "rmse_labels tr4 = (if size_of x_test \<noteq> 0 then [y_test] else [])"
      "predicted_features tr4 = (if size_of x_test \<noteq> 0 then [x_test] else [])"
      "silent tr4"
    by blast
  have s': "s' = s4\<lparr>trace := trace s4 @ [Log (Info_final_statistics
               [fst a, snd a, fst b, snd b, fst c, snd c, fst d, snd d])]\<rparr>"
    using r4 by (simp add: emit_def)
  have b: "if size_of x_inner_val \<noteq> 0 then fst (evaluate e x_inner_val y_inner_val True s) = Inr b
       else b = (NaN, NaN)"
    using t2(4) evaluate_fst_cong [OF t1(2), of e x_inner_val y_inner_val True]
    by (auto split: if_splits)
  have c: "fst (evaluate e x_outer_val y_outer_val True s) = Inr c"
    using t3(4) evaluate_fst_cong [of s2 s e x_outer_val y_outer_val True] t1(2) t2(2) by simp
  have d: "if size_of x_test \<noteq> 0 then fst (evaluate e x_test y_test True s) = Inr d
       else d = (NaN, NaN)"
    using t4(4) evaluate_fst_cong [of s3 s e x_test y_test True] t1(2) t2(2) t3(2)
    by (auto split: if_splits)
  let ?tr = "tr1 @ tr2 @ tr3 @ tr4"
  have "trace s' = trace s @ ?tr @
        [Log (Info_final_statistics [fst a, snd a, fst b, snd b, fst c, snd c, fst d, snd d])]"
    by (simp add: s' t1(1) t2(1) t3(1) t4(1))
  moreover have "self s' = self s" "fs s' = fs s"
    by (simp_all add: s' t1 t2 t3 t4)
  moreover have "rmse_labels ?tr =
        [y_train] @ (if size_of x_inner_val \<noteq> 0 then [y_inner_val] else []) @
        [y_outer_val] @ (if size_of x_test \<noteq> 0 then [y_test] else [])"
    by (simp only: rmse_labels_append t1(5) t2(5) t3(5) t4(5))
  moreover have "predicted_features ?tr =
        [x_train] @ (if size_of x_inner_val \<noteq> 0 then [x_inner_val] else []) @
        [x_outer_val] @ (if size_of x_test \<noteq> 0 then [x_test] else [])"
    by (simp only: predicted_features_append t1(6) t2(6) t3(6) t4(6))
  moreover have "silent ?tr"
    by (simp add: silent_append t1(7) t2(7) t3(7) t4(7))
  ultimately show ?thesis
    using t1(4) b c d by blast
qed


lemmas demo_simps =
  demo_ext_def demo_world_def demo_fitted_def demo_cut_def demo_one_fold_def demo_fit_def
  util_calculate_rmse_def util_calculate_mae_def

lemmas run_simps =
  kfcv_train_def split_test_def kfcv_folds_def kfcv_fold_def normalize_eq np_mean_def
  np_std_def standardize_def fsub_def call_train_model_def kfcv_statistics_def size_of_def
  evaluate_def predict_def rescale_def kfcv_save_def save_model_def backup_def
  external_fs_def pickle_dump_def reset_model_def returnA_def raiseA_def Let_def bindA_def
  external_def emit_def string_of_nat.simps

lemma upt_0_2: "[0..<2] = [0, 1]"
  by (simp add: numeral_2_eq_2)




section \<open>Actions that do not train\<close>

lemma quietD:
  assumes "quiet f" and "f s = (r, s')"
  obtains tr where "trace s' = trace s @ tr" and "silent tr"
  using assms unfolding quiet_def by (metis snd_conv)

lemma quiet_returnA: "quiet (returnA a)"
  by (simp add: quiet_def returnA_def silent_Nil)

lemma quiet_raiseA: "quiet (raiseA err)"
  by (simp add: quiet_def raiseA_def silent_Nil)

lemma quiet_emit_Log: "quiet (emit (Log msg))"
  by (simp add: quiet_def emit_def silent_def)

lemma quiet_external:
  assumes "silent [ev]"
  shows "quiet (external ev r)"
  using assms by (simp add: quiet_def external_def)

lemma quiet_bindA:
  assumes "quiet f" and "\<And>a. quiet (g a)"
  shows "quiet (bindA f g)"
  unfolding quiet_def
proof
  fix s
  obtain r s1 where f: "f s = (r, s1)"
    by (cases "f s")
  from quietD [OF assms(1) f] obtain tr1 where tr1: "trace s1 = trace s @ tr1" "silent tr1"
    by blast
  show "\<exists>tr. trace (snd (bindA f g s)) = trace s @ tr \<and> silent tr"
  proof (cases r)
    case (Inl err)
    with f tr1 show ?thesis
      by (auto simp: bindA_def)
  next
    case (Inr a)
    obtain q s2 where g: "g a s1 = (q, s2)"
      by (cases "g a s1")
    from quietD [OF assms(2) g] obtain tr2 where "trace s2 = trace s1 @ tr2" "silent tr2"
      by blast
    with Inr f g tr1 have "trace (snd (bindA f g s)) = trace s @ (tr1 @ tr2) \<and> silent (tr1 @ tr2)"
      by (simp add: bindA_def silent_append)
    then show ?thesis by blast
  qed
qed

lemma quiet_state:
  assumes "\<And>t. quiet (F t)"
  shows "quiet (\<lambda>s. F s s)"
  using assms by (simp add: quiet_def)

lemma quiet_backup: "quiet (backup p ext)"
  by (simp add: quiet_def backup_def returnA_def silent_def)

lemma quiet_save_tail:
  "quiet (\<lambda>s. bindA (external_fs (Call_save_model (model (self s)) ls p)
                                 (cnn_save_model e (model (self s)) ls p))
                          (\<lambda>_ s'. pickle_dump (p @ ''.attr'')
                                     (y_mean (self s'), y_std (self s')) s') s)"
  by (simp add: quiet_def bindA_def external_fs_def pickle_dump_def silent_def split: sum.splits)

lemma quiet_save_model: "quiet (save_model e p ls)"
  unfolding save_model_def
  by (intro quiet_bindA quiet_emit_Log quiet_backup quiet_save_tail)

lemma quiet_reset_model: "quiet (reset_model e)"
  by (simp add: quiet_def reset_model_def bindA_def external_def silent_def split: sum.splits)

lemma quiet_load_weights: "quiet (load_weights e w)"
  by (simp add: quiet_def load_weights_def bindA_def emit_def raiseA_def external_def silent_def
      split: sum.splits option.splits)

lemma quiet_kfcv_save: "quiet (kfcv_save e i ls pw)"
proof -
  have "quiet (bindA (save_model e p ls)
            (\<lambda>_. case pw of Some w \<Rightarrow> load_weights e w | None \<Rightarrow> reset_model e))" for p
    by (intro quiet_bindA quiet_save_model)
       (simp add: quiet_load_weights quiet_reset_model split: option.splits)
  then show ?thesis
    by (auto simp: quiet_def kfcv_save_def raiseA_def silent_Nil split: option.splits)
qed

lemma quiet_split_test: "quiet (split_test e x y names test_split save_names)"
proof -
  have w: "quiet (write_names a b)" for a b
    by (simp add: quiet_def write_names_def raiseA_def silent_Nil split: option.splits)
  show ?thesis
    unfolding split_test_def
    by (intro quiet_bindA quiet_emit_Log quiet_external)
       (auto simp: silent_def w quiet_returnA intro!: quiet_bindA)
qed


section \<open>The folds\<close>

lemma call_train_model_InrD:
  assumes "call_train_model e x_train y_train x_inner_val y_inner_val x_test y_test
             x_outer_val y_outer_val s = (Inr ls, s')"
  shows "trace s' = trace s @ [Call_train_model (model (self s)) x_train y_train
           x_inner_val y_inner_val x_test y_test x_outer_val y_outer_val]"
  using assms
  by (auto simp: call_train_model_def bindA_def external_def split: sum.splits prod.splits)

lemma kfcv_fold_trace:
  assumes "kfcv_fold e folded_xs folded_ys train_ratio pw x_test i y_test s = (Inr y', s')"
  shows "\<exists>x_train x_inner_val x_outer_val y_train y_inner_val y_outer_val tr.
      prepare_data_one_fold e folded_xs folded_ys (int i) 4 train_ratio =
        Inr (x_train, x_inner_val, x_outer_val, y_train, y_inner_val, y_outer_val) \<and>
      y' = map (standardize (np_mean y_train) (np_std y_train)) y_test \<and>
      trace s' = trace s @ tr \<and> trained_test_labels tr = [y'] \<and>
      trained_test_sets tr = [(x_test, y')] \<and>
      (size_of x_test \<noteq> 0 \<longrightarrow> y' \<in> set (rmse_labels tr)) \<and>
      (size_of x_test \<noteq> 0 \<longrightarrow> x_test \<in> set (predicted_features tr))"
proof -
  from assms obtain sub s1 where
    ext: "external (Call_prepare_data_one_fold folded_xs folded_ys (int i) 4 train_ratio)
            (prepare_data_one_fold e folded_xs folded_ys (int i) 4 train_ratio) s = (Inr sub, s1)"
    and r1: "(case sub of (x_train, x_inner_val, x_outer_val, y_train0, y_inner_val0, y_outer_val0) \<Rightarrow>
          bindA (normalize y_train0 [y_inner_val0, y_outer_val0, y_test])
            (\<lambda>(y_train, other_ys).
               case other_ys of
                 [y_inner_val, y_outer_val, y_test'] \<Rightarrow>
                   bindA (call_train_model e x_train y_train x_inner_val y_inner_val x_test y_test'
                            (Some x_outer_val) (Some y_outer_val))
                     (\<lambda>ls. bindA (kfcv_statistics e x_train y_train x_inner_val y_inner_val
                                     x_outer_val y_outer_val x_test y_test')
                        (\<lambda>_. bindA (kfcv_save e i ls pw)
                           (\<lambda>_. returnA y_test')))
               | _ \<Rightarrow> raiseA ValueError)) s1 = (Inr y', s')"
    unfolding kfcv_fold_def by (rule bindA_InrE)
  obtain x_train x_inner_val x_outer_val y_train0 y_inner_val0 y_outer_val0
    where sub: "sub = (x_train, x_inner_val, x_outer_val, y_train0, y_inner_val0, y_outer_val0)"
    by (cases sub)
  let ?st = "standardize (np_mean y_train0) (np_std y_train0)"
  let ?y_test = "map ?st y_test"
  define s2 where "s2 = s1\<lparr>self := (self s1)\<lparr>y_mean := Some (np_mean y_train0),
        y_std := Some (np_std y_train0)\<rparr>,
        trace := trace s1 @ [Log (Info_mean_std (np_mean y_train0) (np_std y_train0))]\<rparr>"
  from external_InrD [OF ext] have prep: "prepare_data_one_fold e folded_xs folded_ys (int i) 4
      train_ratio = Inr sub" and s1: "trace s1 = trace s @
        [Call_prepare_data_one_fold folded_xs folded_ys (int i) 4 train_ratio]"
    by simp_all
  from r1 have r2: "bindA (call_train_model e x_train (map ?st y_train0) x_inner_val
          (map ?st y_inner_val0) x_test ?y_test (Some x_outer_val) (Some (map ?st y_outer_val0)))
        (\<lambda>ls. bindA (kfcv_statistics e x_train (map ?st y_train0) x_inner_val
                        (map ?st y_inner_val0) x_outer_val (map ?st y_outer_val0) x_test ?y_test)
                 (\<lambda>_. bindA (kfcv_save e i ls pw) (\<lambda>_. returnA ?y_test))) s2 = (Inr y', s')"
    by (simp add: sub bindA_def normalize_eq s2_def)
  from r2 obtain ls s3 where
    tm: "call_train_model e x_train (map ?st y_train0) x_inner_val
          (map ?st y_inner_val0) x_test ?y_test (Some x_outer_val) (Some (map ?st y_outer_val0))
          s2 = (Inr ls, s3)"
    and r3: "bindA (kfcv_statistics e x_train (map ?st y_train0) x_inner_val
                        (map ?st y_inner_val0) x_outer_val (map ?st y_outer_val0) x_test ?y_test)
                 (\<lambda>_. bindA (kfcv_save e i ls pw) (\<lambda>_. returnA ?y_test)) s3 = (Inr y', s')"
    by (rule bindA_InrE)
  from r3 obtain u s4 where
    st: "kfcv_statistics e x_train (map ?st y_train0) x_inner_val
           (map ?st y_inner_val0) x_outer_val (map ?st y_outer_val0) x_test ?y_test s3 = (Inr u, s4)"
    and r4: "bindA (kfcv_save e i ls pw) (\<lambda>_. returnA ?y_test) s4 = (Inr y', s')"
    by (rule bindA_InrE)
  from r4 obtain v s5 where sv: "kfcv_save e i ls pw s4 = (Inr v, s5)"
    and r5: "returnA ?y_test s5 = (Inr y', s')"
    by (rule bindA_InrE)
  from r5 have y': "y' = ?y_test" and s': "s' = s5"
    by (simp_all add: returnA_def)
  from st have st': "kfcv_statistics e x_train (map ?st y_train0) x_inner_val
           (map ?st y_inner_val0) x_outer_val (map ?st y_outer_val0) x_test ?y_test s3 = (Inr (), s4)"
    by simp
  from kfcv_statistics_InrD [OF st'] obtain tr4 fin where
    t4: "trace s4 = trace s3 @ tr4 @ [Log fin]" "silent tr4"
      "rmse_labels tr4 = [map ?st y_train0] @
          (if size_of x_inner_val \<noteq> 0 then [map ?st y_inner_val0] else []) @
          [map ?st y_outer_val0] @ (if size_of x_test \<noteq> 0 then [?y_test] else [])"
      "predicted_features tr4 = [x_train] @
          (if size_of x_inner_val \<noteq> 0 then [x_inner_val] else []) @
          [x_outer_val] @ (if size_of x_test \<noteq> 0 then [x_test] else [])"
    by blast
  from quietD [OF quiet_kfcv_save sv] obtain tr5 where
    t5: "trace s5 = trace s4 @ tr5" "silent tr5"
    by blast
  let ?tr = "[Call_prepare_data_one_fold folded_xs folded_ys (int i) 4 train_ratio,
      Log (Info_mean_std (np_mean y_train0) (np_std y_train0)),
      Call_train_model (model (self s2)) x_train (map ?st y_train0) x_inner_val
          (map ?st y_inner_val0) x_test ?y_test (Some x_outer_val) (Some (map ?st y_outer_val0))]
      @ tr4 @ [Log fin] @ tr5"
  have tr: "trace s' = trace s @ ?tr"
    by (simp add: s' t5(1) t4(1) call_train_model_InrD [OF tm] s2_def s1)
  have ttl: "trained_test_labels ?tr = [y']"
    using t4(2) t5(2) by (simp add: trained_test_labels_append silent_def y')
  have tts: "trained_test_sets ?tr = [(x_test, y')]"
    using t4(2) t5(2) by (simp add: trained_test_sets_append silent_sets y')
  have rl: "y' \<in> set (rmse_labels ?tr)" if "size_of x_test \<noteq> 0"
    using that by (simp add: rmse_labels_append t4(3) y')
  have pf: "x_test \<in> set (predicted_features ?tr)" if "size_of x_test \<noteq> 0"
    using that by (simp add: predicted_features_append t4(4))
  from prep tr ttl tts rl pf y' sub show ?thesis
    by blast
qed

lemma kfcv_fold_InrD:
  assumes "kfcv_fold e folded_xs folded_ys train_ratio pw x_test i y_test s = (Inr y', s')"
  shows "\<exists>x_train x_inner_val x_outer_val y_train y_inner_val y_outer_val tr.
      prepare_data_one_fold e folded_xs folded_ys (int i) 4 train_ratio =
        Inr (x_train, x_inner_val, x_outer_val, y_train, y_inner_val, y_outer_val) \<and>
      y' = map (standardize (np_mean y_train) (np_std y_train)) y_test \<and>
      trace s' = trace s @ tr \<and> trained_test_labels tr = [y'] \<and>
      (size_of x_test \<noteq> 0 \<longrightarrow> y' \<in> set (rmse_labels tr))"
  using kfcv_fold_trace [OF assms] by blast


lemma kfcv_loop_InrD:
  assumes "kfcv_loop e folded_xs folded_ys train_ratio pw x_test folds_left y_test s = (Inr (), s')"
  shows "\<exists>tr. trace s' = trace s @ tr \<and>
      trained_test_labels tr =
        successive_test_labels e folded_xs folded_ys train_ratio folds_left y_test \<and>
      length (trained_test_labels tr) = length folds_left \<and>
      (size_of x_test \<noteq> 0 \<longrightarrow> set (trained_test_labels tr) \<subseteq> set (rmse_labels tr))"
  using assms
proof (induction folds_left arbitrary: y_test s)
  case Nil
  then show ?case
    by (simp add: returnA_def)
next
  case (Cons i rest)
  from Cons.prems obtain y' s1 where
    fold: "kfcv_fold e folded_xs folded_ys train_ratio pw x_test i y_test s = (Inr y', s1)"
    and loop: "kfcv_loop e folded_xs folded_ys train_ratio pw x_test rest y' s1 = (Inr (), s')"
    by (auto elim: bindA_InrE)
  from kfcv_fold_InrD [OF fold] obtain x_train x_inner_val x_outer_val y_train y_inner_val
      y_outer_val tr1 where
    prep: "prepare_data_one_fold e folded_xs folded_ys (int i) 4 train_ratio =
        Inr (x_train, x_inner_val, x_outer_val, y_train, y_inner_val, y_outer_val)"
    and y': "y' = map (standardize (np_mean y_train) (np_std y_train)) y_test"
    and tr1: "trace s1 = trace s @ tr1" "trained_test_labels tr1 = [y']"
      "size_of x_test \<noteq> 0 \<longrightarrow> y' \<in> set (rmse_labels tr1)"
    by blast
  from Cons.IH [OF loop] obtain tr2 where
    tr2: "trace s' = trace s1 @ tr2"
      "trained_test_labels tr2 =
         successive_test_labels e folded_xs folded_ys train_ratio rest y'"
      "length (trained_test_labels tr2) = length rest"
      "size_of x_test \<noteq> 0 \<longrightarrow> set (trained_test_labels tr2) \<subseteq> set (rmse_labels tr2)"
    by blast
  have "trace s' = trace s @ (tr1 @ tr2)"
    by (simp add: tr1(1) tr2(1))
  moreover have "trained_test_labels (tr1 @ tr2) =
      successive_test_labels e folded_xs folded_ys train_ratio (i # rest) y_test"
    by (simp add: trained_test_labels_append tr1(2) tr2(2) prep y' Let_def)
  moreover have "length (trained_test_labels (tr1 @ tr2)) = length (i # rest)"
    by (simp add: trained_test_labels_append tr1(2) tr2(3))
  moreover have "set (trained_test_labels (tr1 @ tr2)) \<subseteq> set (rmse_labels (tr1 @ tr2))"
    if "size_of x_test \<noteq> 0"
    using that tr1(3) tr2(4)
    by (auto simp: trained_test_labels_append rmse_labels_append tr1(2))
  ultimately show ?case
    by blast
qed

text \<open>
  C9: in a run of \<open>kfcv_train\<close> that completes, the test labels given to the trainer in
  fold \<open>i\<close> are the test labels of fold \<open>i - 1\<close> standardized with the statistics of fold
  \<open>i\<close>: the original labels standardized \<open>i + 1\<close> times. With a test set that is not
  empty the same arrays go to the metric functions.
\<close>

theorem kfcv_train_renormalizes_test_labels:
  assumes "kfcv_train e x y names folds test_split train_ratio test_data save_names pw s
             = (Inr (), s')"
  shows "\<exists>x_test0 y_test0 x_train_and_val y_train_and_val names_test names_train
           folded_xs folded_ys x_test y_test.
      split_test_from_train_and_val e x y names 7 (if test_data \<noteq> None then 0 else test_split) =
        Inr (x_test0, y_test0, x_train_and_val, y_train_and_val, names_test, names_train) \<and>
      (x_test, y_test) = (case test_data of Some td \<Rightarrow> td | None \<Rightarrow> (x_test0, y_test0)) \<and>
      prepare_folded_data e x_train_and_val y_train_and_val folds 2 = Inr (folded_xs, folded_ys) \<and>
      trained_test_labels (trace s') = trained_test_labels (trace s) @
        successive_test_labels e folded_xs folded_ys train_ratio [0..<nat folds] y_test \<and>
      length (successive_test_labels e folded_xs folded_ys train_ratio [0..<nat folds] y_test)
        = nat folds \<and>
      (size_of x_test \<noteq> 0 \<longrightarrow>
         set (successive_test_labels e folded_xs folded_ys train_ratio [0..<nat folds] y_test)
           \<subseteq> set (rmse_labels (trace s')))"
proof -
  let ?ts = "if test_data \<noteq> None then 0 else test_split"
  from assms obtain sp s1 where
    split: "split_test e x y names ?ts save_names s = (Inr sp, s1)"
    and r1: "(case sp of (x_test0, y_test0, x_train_and_val, y_train_and_val) \<Rightarrow>
          case (case test_data of Some td \<Rightarrow> td | None \<Rightarrow> (x_test0, y_test0)) of
            (x_test, y_test) \<Rightarrow>
              kfcv_folds e folds train_ratio pw x_train_and_val y_train_and_val x_test y_test) s1
          = (Inr (), s')"
    unfolding kfcv_train_def by (rule bindA_InrE)
  obtain x_test0 y_test0 x_train_and_val y_train_and_val
    where sp: "sp = (x_test0, y_test0, x_train_and_val, y_train_and_val)"
    by (cases sp)
  obtain x_test y_test
    where td: "(x_test, y_test) = (case test_data of Some td \<Rightarrow> td | None \<Rightarrow> (x_test0, y_test0))"
    by (cases "case test_data of Some td \<Rightarrow> td | None \<Rightarrow> (x_test0, y_test0)") simp
  from quietD [OF quiet_split_test split] obtain tr1 where
    tr1: "trace s1 = trace s @ tr1" "silent tr1"
    by blast
  from split obtain names_test names_train where
    ext: "split_test_from_train_and_val e x y names 7 ?ts =
        Inr (x_test0, y_test0, x_train_and_val, y_train_and_val, names_test, names_train)"
    unfolding split_test_def sp
    by (cases "split_test_from_train_and_val e x y names 7 ?ts")
       (auto simp: returnA_def elim!: bindA_InrE dest!: external_InrD split: prod.splits)
  from r1 have r2: "kfcv_folds e folds train_ratio pw x_train_and_val y_train_and_val x_test y_test s1
      = (Inr (), s')"
    using td by (simp add: sp split: prod.splits)
  from r2 obtain fd s2 where
    pf: "external (Call_prepare_folded_data x_train_and_val y_train_and_val folds 2)
           (prepare_folded_data e x_train_and_val y_train_and_val folds 2) s1 = (Inr fd, s2)"
    and r3: "(case fd of (folded_xs, folded_ys) \<Rightarrow>
          kfcv_loop e folded_xs folded_ys train_ratio pw x_test [0..<nat folds] y_test) s2
          = (Inr (), s')"
    unfolding kfcv_folds_def by (rule bindA_InrE)
  obtain folded_xs folded_ys where fd: "fd = (folded_xs, folded_ys)"
    by (cases fd)
  from external_InrD [OF pf] have
    prep: "prepare_folded_data e x_train_and_val y_train_and_val folds 2 = Inr (folded_xs, folded_ys)"
    and s2: "trace s2 = trace s1 @ [Call_prepare_folded_data x_train_and_val y_train_and_val folds 2]"
    by (simp_all add: fd)
  from r3 have "kfcv_loop e folded_xs folded_ys train_ratio pw x_test [0..<nat folds] y_test s2
      = (Inr (), s')"
    by (simp add: fd)
  from kfcv_loop_InrD [OF this] obtain tr3 where
    tr3: "trace s' = trace s2 @ tr3"
      "trained_test_labels tr3 =
         successive_test_labels e folded_xs folded_ys train_ratio [0..<nat folds] y_test"
      "length (trained_test_labels tr3) = length [0..<nat folds]"
      "size_of x_test \<noteq> 0 \<longrightarrow> set (trained_test_labels tr3) \<subseteq> set (rmse_labels tr3)"
    by blast
  have tr: "trace s' = trace s @ tr1 @
      [Call_prepare_folded_data x_train_and_val y_train_and_val folds 2] @ tr3"
    by (simp add: tr3(1) s2 tr1(1))
  have labels: "trained_test_labels (trace s') = trained_test_labels (trace s) @
        successive_test_labels e folded_xs folded_ys train_ratio [0..<nat folds] y_test"
    using tr1(2) by (simp add: tr trained_test_labels_append silent_def tr3(2))
  have len: "length (successive_test_labels e folded_xs folded_ys train_ratio [0..<nat folds] y_test)
        = nat folds"
    using tr3(3) by (simp add: tr3(2))
  have "set (successive_test_labels e folded_xs folded_ys train_ratio [0..<nat folds] y_test)
           \<subseteq> set (rmse_labels (trace s'))" if "size_of x_test \<noteq> 0"
    using that tr3(4) by (auto simp: tr rmse_labels_append tr3(2))
  with ext td prep labels len show ?thesis
    by blast
qed


theorem kfcv_train_renormalizes_test_labels_witness:
  "fst (kfcv_train demo_ext [[1], [2], [3], [4], [5]] [Fin 1, Fin 3, Fin 5, Fin 7, Fin 9]
      [''a'', ''b'', ''c'', ''d'', ''e''] 2 (1/5) 1 None False None demo_world) = Inr () \<and>
   trained_test_labels (trace (snd (kfcv_train demo_ext [[1], [2], [3], [4], [5]]
      [Fin 1, Fin 3, Fin 5, Fin 7, Fin 9] [''a'', ''b'', ''c'', ''d'', ''e''] 2 (1/5) 1
      None False None demo_world))) = [[Fin (- 7)], [Fin (- 11)]] \<and>
   [Fin (- 11)] \<in> set (rmse_labels (trace (snd (kfcv_train demo_ext [[1], [2], [3], [4], [5]]
      [Fin 1, Fin 3, Fin 5, Fin 7, Fin 9] [''a'', ''b'', ''c'', ''d'', ''e''] 2 (1/5) 1
      None False None demo_world)))) \<and>
   prepare_data_one_fold demo_ext [[[2], [3]], [[4], [5]]] [[Fin 3, Fin 5], [Fin 7, Fin 9]] 1 4 1
     = Inr ([[2], [3]], [], [[4], [5]], [Fin 3, Fin 5], [], [Fin 7, Fin 9]) \<and>
   map (standardize (np_mean [Fin 3, Fin 5]) (np_std [Fin 3, Fin 5])) [Fin 1] = [Fin (- 3)]"
proof -
  let ?run = "kfcv_train demo_ext [[1], [2], [3], [4], [5]] [Fin 1, Fin 3, Fin 5, Fin 7, Fin 9]
      [''a'', ''b'', ''c'', ''d'', ''e''] 2 (1/5) 1 None False None demo_world"
  have ok: "fst ?run = Inr ()"
    by (simp add: upt_0_2 demo_simps run_simps)
  then have run: "?run = (Inr (), snd ?run)"
    by (simp add: prod_eq_iff)
  have split: "split_test_from_train_and_val demo_ext [[1], [2], [3], [4], [5]]
      [Fin 1, Fin 3, Fin 5, Fin 7, Fin 9] [''a'', ''b'', ''c'', ''d'', ''e''] 7 (1/5) =
      Inr ([[1]], [Fin 1], [[2], [3], [4], [5]], [Fin 3, Fin 5, Fin 7, Fin 9],
           [''a''], [''b'', ''c'', ''d'', ''e''])"
    by (simp add: demo_simps)
  have folded: "prepare_folded_data demo_ext [[2], [3], [4], [5]] [Fin 3, Fin 5, Fin 7, Fin 9] 2 2 =
      Inr ([[[2], [3]], [[4], [5]]], [[Fin 3, Fin 5], [Fin 7, Fin 9]])"
    by (simp add: demo_simps upt_0_2)
  have fold1: "prepare_data_one_fold demo_ext [[[2], [3]], [[4], [5]]]
      [[Fin 3, Fin 5], [Fin 7, Fin 9]] 1 4 1
     = Inr ([[2], [3]], [], [[4], [5]], [Fin 3, Fin 5], [], [Fin 7, Fin 9])"
    by (simp add: demo_simps)
  have fold0: "prepare_data_one_fold demo_ext [[[2], [3]], [[4], [5]]]
      [[Fin 3, Fin 5], [Fin 7, Fin 9]] 0 4 1
     = Inr ([[4], [5]], [], [[2], [3]], [Fin 7, Fin 9], [], [Fin 3, Fin 5])"
    by (simp add: demo_simps)
  have succ: "successive_test_labels demo_ext [[[2], [3]], [[4], [5]]]
      [[Fin 3, Fin 5], [Fin 7, Fin 9]] 1 [0..<nat 2] [Fin 1] = [[Fin (- 7)], [Fin (- 11)]]"
    using fold0 fold1
    by (simp add: upt_0_2 np_mean_def np_std_def standardize_def fsub_def)
  have once: "map (standardize (np_mean [Fin 3, Fin 5]) (np_std [Fin 3, Fin 5])) [Fin 1]
      = [Fin (- 3)]"
    by (simp add: np_mean_def np_std_def standardize_def fsub_def)
  have t0: "trace demo_world = []" and sz: "size_of [[1]] \<noteq> 0"
    by (simp_all add: demo_world_def size_of_def)
  from kfcv_train_renormalizes_test_labels [OF run]
  have "trained_test_labels (trace (snd ?run)) = [[Fin (- 7)], [Fin (- 11)]] \<and>
        set [[Fin (- 7)], [Fin (- 11)]] \<subseteq> set (rmse_labels (trace (snd ?run)))"
    using split folded succ t0 sz by auto
  with ok fold1 once show ?thesis
    by simp
qed


section \<open>A supplied test set\<close>

lemma split_test_InrD:
  assumes "split_test e x y names test_split save_names s = (Inr (a, b, c, d), s')"
  shows "\<exists>names_test names_train.
      split_test_from_train_and_val e x y names 7 test_split =
        Inr (a, b, c, d, names_test, names_train) \<and>
      trace s' = trace s @ [Log (Info_splitting_dataset test_split),
        Call_split_test_from_train_and_val x y names 7 test_split]"
proof -
  let ?s0 = "s\<lparr>trace := trace s @ [Log (Info_splitting_dataset test_split)]\<rparr>"
  from assms obtain sp s1 where
    ext: "external (Call_split_test_from_train_and_val x y names 7 test_split)
            (split_test_from_train_and_val e x y names 7 test_split) ?s0 = (Inr sp, s1)"
    and r1: "(case sp of (x_test, y_test, x_train, y_train, names_test, names_train) \<Rightarrow>
             bindA (if save_names then write_names names_test names_train else returnA ())
               (\<lambda>_. returnA (x_test, y_test, x_train, y_train))) s1 = (Inr (a, b, c, d), s')"
    unfolding split_test_def by (auto elim: bindA_InrE)
  obtain x_test y_test x_train y_train names_test names_train
    where sp: "sp = (x_test, y_test, x_train, y_train, names_test, names_train)"
    by (cases sp)
  from r1 obtain u s2 where
    w: "(if save_names then write_names names_test names_train else returnA ()) s1 = (Inr u, s2)"
    and r2: "returnA (x_test, y_test, x_train, y_train) s2 = (Inr (a, b, c, d), s')"
    unfolding sp by (auto elim: bindA_InrE)
  have "trace s2 = trace s1"
    using w by (auto simp: write_names_def returnA_def raiseA_def split: if_splits option.splits)
  moreover from r2 have "s' = s2" and "(x_test, y_test, x_train, y_train) = (a, b, c, d)"
    by (simp_all add: returnA_def)
  moreover note external_InrD [OF ext] sp
  ultimately show ?thesis
    by auto
qed

lemma kfcv_loop_test_sets:
  assumes "kfcv_loop e folded_xs folded_ys train_ratio pw x_test folds_left y_test s = (Inr (), s')"
  shows "\<exists>tr. trace s' = trace s @ tr \<and>
      trained_test_sets tr = map (Pair x_test)
        (successive_test_labels e folded_xs folded_ys train_ratio folds_left y_test) \<and>
      length (trained_test_sets tr) = length folds_left \<and>
      (size_of x_test \<noteq> 0 \<longrightarrow>
         set (successive_test_labels e folded_xs folded_ys train_ratio folds_left y_test)
           \<subseteq> set (rmse_labels tr)) \<and>
      (size_of x_test \<noteq> 0 \<longrightarrow> folds_left \<noteq> [] \<longrightarrow> x_test \<in> set (predicted_features tr))"
  using assms
proof (induction folds_left arbitrary: y_test s)
  case Nil
  then show ?case
    by (simp add: returnA_def)
next
  case (Cons i rest)
  from Cons.prems obtain y' s1 where
    fold: "kfcv_fold e folded_xs folded_ys train_ratio pw x_test i y_test s = (Inr y', s1)"
    and loop: "kfcv_loop e folded_xs folded_ys train_ratio pw x_test rest y' s1 = (Inr (), s')"
    by (auto elim: bindA_InrE)
  from kfcv_fold_trace [OF fold] obtain x_train x_inner_val x_outer_val y_train y_inner_val
      y_outer_val tr1 where
    prep: "prepare_data_one_fold e folded_xs folded_ys (int i) 4 train_ratio =
        Inr (x_train, x_inner_val, x_outer_val, y_train, y_inner_val, y_outer_val)"
    and y': "y' = map (standardize (np_mean y_train) (np_std y_train)) y_test"
    and tr1: "trace s1 = trace s @ tr1" "trained_test_sets tr1 = [(x_test, y')]"
      "size_of x_test \<noteq> 0 \<longrightarrow> y' \<in> set (rmse_labels tr1)"
      "size_of x_test \<noteq> 0 \<longrightarrow> x_test \<in> set (predicted_features tr1)"
    by blast
  from Cons.IH [OF loop] obtain tr2 where
    tr2: "trace s' = trace s1 @ tr2"
      "trained_test_sets tr2 = map (Pair x_test)
         (successive_test_labels e folded_xs folded_ys train_ratio rest y')"
      "length (trained_test_sets tr2) = length rest"
      "size_of x_test \<noteq> 0 \<longrightarrow>
         set (successive_test_labels e folded_xs folded_ys train_ratio rest y')
           \<subseteq> set (rmse_labels tr2)"
    by blast
  have succ: "successive_test_labels e folded_xs folded_ys train_ratio (i # rest) y_test =
      y' # successive_test_labels e folded_xs folded_ys train_ratio rest y'"
    by (simp add: prep y' Let_def)
  have "trace s' = trace s @ (tr1 @ tr2)"
    by (simp add: tr1(1) tr2(1))
  moreover have "trained_test_sets (tr1 @ tr2) = map (Pair x_test)
      (successive_test_labels e folded_xs folded_ys train_ratio (i # rest) y_test)"
    unfolding succ by (simp add: trained_test_sets_append tr1(2) tr2(2))
  moreover have "length (trained_test_sets (tr1 @ tr2)) = length (i # rest)"
    by (simp add: trained_test_sets_append tr1(2) tr2(3))
  moreover have "set (successive_test_labels e folded_xs folded_ys train_ratio (i # rest) y_test)
      \<subseteq> set (rmse_labels (tr1 @ tr2))" if "size_of x_test \<noteq> 0"
    unfolding succ using that tr1(3) tr2(4) by (auto simp: rmse_labels_append)
  moreover have "x_test \<in> set (predicted_features (tr1 @ tr2))" if "size_of x_test \<noteq> 0"
    using that tr1(4) by (simp add: predicted_features_append)
  ultimately show ?case
    by blast
qed

lemma kfcv_folds_test_sets:
  assumes "kfcv_folds e folds train_ratio pw x_train_and_val y_train_and_val x_test y_test s
             = (Inr (), s')"
  shows "\<exists>folded_xs folded_ys tr.
      prepare_folded_data e x_train_and_val y_train_and_val folds 2 = Inr (folded_xs, folded_ys) \<and>
      trace s' = trace s @ tr \<and>
      trained_test_sets tr = map (Pair x_test)
        (successive_test_labels e folded_xs folded_ys train_ratio [0..<nat folds] y_test) \<and>
      length (trained_test_sets tr) = nat folds \<and>
      (size_of x_test \<noteq> 0 \<longrightarrow>
         set (successive_test_labels e folded_xs folded_ys train_ratio [0..<nat folds] y_test)
           \<subseteq> set (rmse_labels tr)) \<and>
      (size_of x_test \<noteq> 0 \<longrightarrow> 0 < folds \<longrightarrow> x_test \<in> set (predicted_features tr))"
proof -
  from assms obtain fd s1 where
    pf: "external (Call_prepare_folded_data x_train_and_val y_train_and_val folds 2)
           (prepare_folded_data e x_train_and_val y_train_and_val folds 2) s = (Inr fd, s1)"
    and r: "(case fd of (folded_xs, folded_ys) \<Rightarrow>
          kfcv_loop e folded_xs folded_ys train_ratio pw x_test [0..<nat folds] y_test) s1
          = (Inr (), s')"
    unfolding kfcv_folds_def by (rule bindA_InrE)
  obtain folded_xs folded_ys where fd: "fd = (folded_xs, folded_ys)"
    by (cases fd)
  from external_InrD [OF pf] have
    prep: "prepare_folded_data e x_train_and_val y_train_and_val folds 2 = Inr (folded_xs, folded_ys)"
    and s1: "trace s1 = trace s @ [Call_prepare_folded_data x_train_and_val y_train_and_val folds 2]"
    by (simp_all add: fd)
  from r have "kfcv_loop e folded_xs folded_ys train_ratio pw x_test [0..<nat folds] y_test s1
      = (Inr (), s')"
    by (simp add: fd)
  from kfcv_loop_test_sets [OF this] obtain tr2 where
    tr2: "trace s' = trace s1 @ tr2"
      "trained_test_sets tr2 = map (Pair x_test)
        (successive_test_labels e folded_xs folded_ys train_ratio [0..<nat folds] y_test)"
      "length (trained_test_sets tr2) = length [0..<nat folds]"
      "size_of x_test \<noteq> 0 \<longrightarrow>
         set (successive_test_labels e folded_xs folded_ys train_ratio [0..<nat folds] y_test)
           \<subseteq> set (rmse_labels tr2)"
      "size_of x_test \<noteq> 0 \<longrightarrow> [0..<nat folds] \<noteq> [] \<longrightarrow> x_test \<in> set (predicted_features tr2)"
    by blast
  let ?tr = "Call_prepare_folded_data x_train_and_val y_train_and_val folds 2 # tr2"
  have "trace s' = trace s @ ?tr"
    by (simp add: tr2(1) s1)
  moreover have "trained_test_sets ?tr = map (Pair x_test)
        (successive_test_labels e folded_xs folded_ys train_ratio [0..<nat folds] y_test)"
    by (simp add: tr2(2))
  moreover have "length (trained_test_sets ?tr) = nat folds"
    using tr2(3) by simp
  moreover have "set (successive_test_labels e folded_xs folded_ys train_ratio [0..<nat folds] y_test)
           \<subseteq> set (rmse_labels ?tr)" if "size_of x_test \<noteq> 0"
    using that tr2(4) by simp
  moreover have "x_test \<in> set (predicted_features ?tr)" if "size_of x_test \<noteq> 0" and "0 < folds"
    using that tr2(5) by simp
  ultimately show ?thesis
    using prep by blast
qed


lemma full_statistics_InrD:
  assumes "full_statistics e x_train y_train x_inner_val y_inner_val x_test y_test s = (Inr (), s')"
  shows "\<exists>tr fin. trace s' = trace s @ tr @ [Log fin] \<and> silent tr \<and>
      rmse_labels tr = [y_train] @ (if size_of x_inner_val \<noteq> 0 then [y_inner_val] else []) @
        (if size_of x_test \<noteq> 0 then [y_test] else []) \<and>
      predicted_features tr = [x_train] @
        (if size_of x_inner_val \<noteq> 0 then [x_inner_val] else []) @
        (if size_of x_test \<noteq> 0 then [x_test] else [])"
proof -
  from assms obtain a s1 where
    1: "(if True then evaluate e x_train y_train True else returnA (NaN, NaN)) s = (Inr a, s1)"
    and r1: "(case a of (rmse_train, mae_train) \<Rightarrow>
          bindA (if size_of x_inner_val \<noteq> 0 then evaluate e x_inner_val y_inner_val True
                 else returnA (NaN, NaN))
            (\<lambda>(rmse_inner_val, mae_inner_val).
               bindA (if size_of x_test \<noteq> 0 then evaluate e x_test y_test True
                      else returnA (NaN, NaN))
                 (\<lambda>(rmse_test, mae_test).
                    emit (Log (Info_final_statistics
                      [rmse_train, mae_train, rmse_inner_val, mae_inner_val,
                       rmse_test, mae_test]))))) s1 = (Inr (), s')"
    unfolding full_statistics_def by (rule bindA_InrE) simp
  from r1 obtain b s2 where
    2: "(if size_of x_inner_val \<noteq> 0 then evaluate e x_inner_val y_inner_val True
         else returnA (NaN, NaN)) s1 = (Inr b, s2)"
    and r2: "(case b of (rmse_inner_val, mae_inner_val) \<Rightarrow>
               bindA (if size_of x_test \<noteq> 0 then evaluate e x_test y_test True
                      else returnA (NaN, NaN))
                 (\<lambda>(rmse_test, mae_test).
                    emit (Log (Info_final_statistics
                      [fst a, snd a, rmse_inner_val, mae_inner_val,
                       rmse_test, mae_test])))) s2 = (Inr (), s')"
    by (cases a) (auto elim: bindA_InrE)
  from r2 obtain d s3 where
    3: "(if size_of x_test \<noteq> 0 then evaluate e x_test y_test True
         else returnA (NaN, NaN)) s2 = (Inr d, s3)"
    and r3: "emit (Log (Info_final_statistics
               [fst a, snd a, fst b, snd b, fst d, snd d])) s3 = (Inr (), s')"
    by (cases b) (auto elim!: bindA_InrE)
  from guarded_evaluate_InrD [OF 1] obtain tr1 where
    t1: "trace s1 = trace s @ tr1" "rmse_labels tr1 = [y_train]"
      "predicted_features tr1 = [x_train]" "silent tr1"
    by auto
  from guarded_evaluate_InrD [OF 2] obtain tr2 where
    t2: "trace s2 = trace s1 @ tr2"
      "rmse_labels tr2 = (if size_of x_inner_val \<noteq> 0 then [y_inner_val] else [])"
      "predicted_features tr2 = (if size_of x_inner_val \<noteq> 0 then [x_inner_val] else [])"
      "silent tr2"
    by blast
  from guarded_evaluate_InrD [OF 3] obtain tr3 where
    t3: "trace s3 = trace s2 @ tr3"
      "rmse_labels tr3 = (if size_of x_test \<noteq> 0 then [y_test] else [])"
      "predicted_features tr3 = (if size_of x_test \<noteq> 0 then [x_test] else [])"
      "silent tr3"
    by blast
  let ?fin = "Info_final_statistics [fst a, snd a, fst b, snd b, fst d, snd d]"
  let ?tr = "tr1 @ tr2 @ tr3"
  have "trace s' = trace s @ ?tr @ [Log ?fin]"
    using r3 by (auto simp: emit_def t1(1) t2(1) t3(1))
  moreover have "silent ?tr"
    by (simp add: silent_append t1(4) t2(4) t3(4))
  moreover have "rmse_labels ?tr = [y_train] @
      (if size_of x_inner_val \<noteq> 0 then [y_inner_val] else []) @
      (if size_of x_test \<noteq> 0 then [y_test] else [])"
    by (simp only: rmse_labels_append t1(2) t2(2) t3(2))
  moreover have "predicted_features ?tr = [x_train] @
      (if size_of x_inner_val \<noteq> 0 then [x_inner_val] else []) @
      (if size_of x_test \<noteq> 0 then [x_test] else [])"
    by (simp only: predicted_features_append t1(3) t2(3) t3(3))
  ultimately show ?thesis
    by blast
qed

lemma full_fit_InrD:
  assumes "full_fit e train_ratio x_train0 y_train0 x_test y_test0 s = (Inr (), s')"
  shows "\<exists>x_train x_inner_val y_train y_inner_val tr.
      split_inner_val_from_train_data e x_train0 y_train0 77 train_ratio =
        Inr (x_train, x_inner_val, y_train, y_inner_val) \<and>
      trace s' = trace s @ tr \<and>
      trained_test_sets tr =
        [(x_test, map (standardize (np_mean y_train) (np_std y_train)) y_test0)] \<and>
      (size_of x_test \<noteq> 0 \<longrightarrow>
         x_test \<in> set (predicted_features tr) \<and>
         map (standardize (np_mean y_train) (np_std y_train)) y_test0 \<in> set (rmse_labels tr))"
proof -
  let ?s0 = "s\<lparr>trace := trace s @ [Log Info_splitting_training_data]\<rparr>"
  from assms obtain sp s1 where
    ext: "external (Call_split_inner_val_from_train_data x_train0 y_train0 77 train_ratio)
            (split_inner_val_from_train_data e x_train0 y_train0 77 train_ratio) ?s0 = (Inr sp, s1)"
    and r1: "(case sp of (x_train, x_inner_val, y_train1, y_inner_val0) \<Rightarrow>
             bindA (normalize y_train1 [y_inner_val0, y_test0])
               (\<lambda>(y_train, other_ys).
                  case other_ys of
                    [y_inner_val, y_test] \<Rightarrow>
                      bindA (emit (Log Info_training_model))
                        (\<lambda>_. bindA (emit (Log (Info_points ''Training data'' (length x_train))))
                        (\<lambda>_. bindA (emit (Log (Info_points ''Inner validation data'' (length x_inner_val))))
                        (\<lambda>_. bindA (emit (Log (Info_points ''Test data'' (length x_test))))
                        (\<lambda>_. bindA (call_train_model e x_train y_train x_inner_val y_inner_val
                                      x_test y_test None None)
                        (\<lambda>ls. bindA (full_statistics e x_train y_train x_inner_val y_inner_val
                                       x_test y_test)
                        (\<lambda>_ s. case out_dir (self s) of
                                  None \<Rightarrow> raiseA AttributeError s
                                | Some d \<Rightarrow> save_model e (path_join d ''model'') ls s))))))
                  | _ \<Rightarrow> raiseA ValueError)) s1 = (Inr (), s')"
    unfolding full_fit_def by (auto elim: bindA_InrE)
  obtain x_train x_inner_val y_train1 y_inner_val0
    where sp: "sp = (x_train, x_inner_val, y_train1, y_inner_val0)"
    by (cases sp)
  let ?st = "standardize (np_mean y_train1) (np_std y_train1)"
  let ?y_test = "map ?st y_test0"
  let ?logs = "[Log (Info_mean_std (np_mean y_train1) (np_std y_train1)),
      Log Info_training_model, Log (Info_points ''Training data'' (length x_train)),
      Log (Info_points ''Inner validation data'' (length x_inner_val)),
      Log (Info_points ''Test data'' (length x_test))]"
  define s2 where "s2 = s1\<lparr>self := (self s1)\<lparr>y_mean := Some (np_mean y_train1),
        y_std := Some (np_std y_train1)\<rparr>, trace := trace s1 @ ?logs\<rparr>"
  from external_InrD [OF ext] have
    prep: "split_inner_val_from_train_data e x_train0 y_train0 77 train_ratio = Inr sp"
    and s1: "trace s1 = trace s @ [Log Info_splitting_training_data,
        Call_split_inner_val_from_train_data x_train0 y_train0 77 train_ratio]"
    by simp_all
  from r1 have r2: "bindA (call_train_model e x_train (map ?st y_train1) x_inner_val
          (map ?st y_inner_val0) x_test ?y_test None None)
        (\<lambda>ls. bindA (full_statistics e x_train (map ?st y_train1) x_inner_val
                        (map ?st y_inner_val0) x_test ?y_test)
                 (\<lambda>_ s. case out_dir (self s) of
                           None \<Rightarrow> raiseA AttributeError s
                         | Some d \<Rightarrow> save_model e (path_join d ''model'') ls s)) s2 = (Inr (), s')"
    by (simp add: sp bindA_def normalize_eq s2_def emit_def)
  from r2 obtain ls s3 where
    tm: "call_train_model e x_train (map ?st y_train1) x_inner_val
          (map ?st y_inner_val0) x_test ?y_test None None s2 = (Inr ls, s3)"
    and r3: "bindA (full_statistics e x_train (map ?st y_train1) x_inner_val
                        (map ?st y_inner_val0) x_test ?y_test)
                 (\<lambda>_ s. case out_dir (self s) of
                           None \<Rightarrow> raiseA AttributeError s
                         | Some d \<Rightarrow> save_model e (path_join d ''model'') ls s) s3 = (Inr (), s')"
    by (rule bindA_InrE)
  from r3 obtain u s4 where
    st: "full_statistics e x_train (map ?st y_train1) x_inner_val
           (map ?st y_inner_val0) x_test ?y_test s3 = (Inr u, s4)"
    and r4: "(case out_dir (self s4) of
                None \<Rightarrow> raiseA AttributeError s4
              | Some d \<Rightarrow> save_model e (path_join d ''model'') ls s4) = (Inr (), s')"
    by (rule bindA_InrE)
  from st have st': "full_statistics e x_train (map ?st y_train1) x_inner_val
           (map ?st y_inner_val0) x_test ?y_test s3 = (Inr (), s4)"
    by simp
  from full_statistics_InrD [OF st'] obtain tr4 fin where
    t4: "trace s4 = trace s3 @ tr4 @ [Log fin]" "silent tr4"
      "rmse_labels tr4 = [map ?st y_train1] @
          (if size_of x_inner_val \<noteq> 0 then [map ?st y_inner_val0] else []) @
          (if size_of x_test \<noteq> 0 then [?y_test] else [])"
      "predicted_features tr4 = [x_train] @
          (if size_of x_inner_val \<noteq> 0 then [x_inner_val] else []) @
          (if size_of x_test \<noteq> 0 then [x_test] else [])"
    by blast
  from r4 obtain d where sv: "save_model e (path_join d ''model'') ls s4 = (Inr (), s')"
    by (cases "out_dir (self s4)") (simp_all add: raiseA_def)
  from quietD [OF quiet_save_model sv] obtain tr5 where
    t5: "trace s' = trace s4 @ tr5" "silent tr5"
    by blast
  let ?tr = "[Log Info_splitting_training_data,
        Call_split_inner_val_from_train_data x_train0 y_train0 77 train_ratio] @ ?logs @
      [Call_train_model (model (self s2)) x_train (map ?st y_train1) x_inner_val
          (map ?st y_inner_val0) x_test ?y_test None None]
      @ tr4 @ [Log fin] @ tr5"
  have tr: "trace s' = trace s @ ?tr"
    by (simp add: t5(1) t4(1) call_train_model_InrD [OF tm] s2_def s1)
  have tts: "trained_test_sets ?tr = [(x_test, ?y_test)]"
    using t4(2) t5(2) by (simp add: trained_test_sets_append silent_sets)
  have rl: "?y_test \<in> set (rmse_labels ?tr)" if "size_of x_test \<noteq> 0"
    using that by (simp add: rmse_labels_append t4(3))
  have pf: "x_test \<in> set (predicted_features ?tr)" if "size_of x_test \<noteq> 0"
    using that by (simp add: predicted_features_append t4(4))
  from prep tr tts rl pf sp show ?thesis
    by blast
qed


text \<open>
  C8: with a supplied pair of test data, \<open>kfcv_train\<close> and \<open>full_train\<close> call the splitter
  with a test split of 0, whatever the caller's \<open>test_split\<close> is, and in a run that
  completes every call of the trainer gets the supplied features as its test features and
  the supplied labels, standardized by \<open>normalize\<close>, as its test labels; when the supplied
  features are not empty, they and the same labels go to the model and the metric functions
  for the evaluation. The test subset that the splitter returns is not used.
\<close>

theorem supplied_test_data_overrides_split:
  "(kfcv_train e x y names folds test_split train_ratio (Some (x_test, y_test)) save_names pw s
      = (Inr (), s') \<longrightarrow>
    (\<exists>x_test0 y_test0 x_train_and_val y_train_and_val names_test names_train
        folded_xs folded_ys tr.
       split_test_from_train_and_val e x y names 7 0 =
         Inr (x_test0, y_test0, x_train_and_val, y_train_and_val, names_test, names_train) \<and>
       prepare_folded_data e x_train_and_val y_train_and_val folds 2 = Inr (folded_xs, folded_ys) \<and>
       trace s' = trace s @ [Log (Info_splitting_dataset 0),
         Call_split_test_from_train_and_val x y names 7 0] @ tr \<and>
       trained_test_sets tr = map (Pair x_test)
         (successive_test_labels e folded_xs folded_ys train_ratio [0..<nat folds] y_test) \<and>
       length (trained_test_sets tr) = nat folds \<and>
       (size_of x_test \<noteq> 0 \<longrightarrow>
          set (successive_test_labels e folded_xs folded_ys train_ratio [0..<nat folds] y_test)
            \<subseteq> set (rmse_labels tr)) \<and>
       (size_of x_test \<noteq> 0 \<longrightarrow> 0 < folds \<longrightarrow> x_test \<in> set (predicted_features tr)))) \<and>
   (full_train e x y names test_split train_ratio (Some (x_test, y_test)) save_names s
      = (Inr (), s'') \<longrightarrow>
    (\<exists>x_test0 y_test0 x_train0 y_train0 names_test names_train
        x_train x_inner_val y_train y_inner_val tr.
       split_test_from_train_and_val e x y names 7 0 =
         Inr (x_test0, y_test0, x_train0, y_train0, names_test, names_train) \<and>
       split_inner_val_from_train_data e x_train0 y_train0 77 train_ratio =
         Inr (x_train, x_inner_val, y_train, y_inner_val) \<and>
       trace s'' = trace s @ [Log (Info_splitting_dataset 0),
         Call_split_test_from_train_and_val x y names 7 0] @ tr \<and>
       trained_test_sets tr =
         [(x_test, map (standardize (np_mean y_train) (np_std y_train)) y_test)] \<and>
       (size_of x_test \<noteq> 0 \<longrightarrow>
          x_test \<in> set (predicted_features tr) \<and>
          map (standardize (np_mean y_train) (np_std y_train)) y_test \<in> set (rmse_labels tr)))) \<and>
   kfcv_train e x y names folds test_split train_ratio (Some (x_test, y_test)) save_names pw =
     kfcv_train e x y names folds test_split' train_ratio (Some (x_test, y_test)) save_names pw \<and>
   full_train e x y names test_split train_ratio (Some (x_test, y_test)) save_names =
     full_train e x y names test_split' train_ratio (Some (x_test, y_test)) save_names"
proof -
  have kfcv: "\<exists>x_test0 y_test0 x_train_and_val y_train_and_val names_test names_train
        folded_xs folded_ys tr.
       split_test_from_train_and_val e x y names 7 0 =
         Inr (x_test0, y_test0, x_train_and_val, y_train_and_val, names_test, names_train) \<and>
       prepare_folded_data e x_train_and_val y_train_and_val folds 2 = Inr (folded_xs, folded_ys) \<and>
       trace s' = trace s @ [Log (Info_splitting_dataset 0),
         Call_split_test_from_train_and_val x y names 7 0] @ tr \<and>
       trained_test_sets tr = map (Pair x_test)
         (successive_test_labels e folded_xs folded_ys train_ratio [0..<nat folds] y_test) \<and>
       length (trained_test_sets tr) = nat folds \<and>
       (size_of x_test \<noteq> 0 \<longrightarrow>
          set (successive_test_labels e folded_xs folded_ys train_ratio [0..<nat folds] y_test)
            \<subseteq> set (rmse_labels tr)) \<and>
       (size_of x_test \<noteq> 0 \<longrightarrow> 0 < folds \<longrightarrow> x_test \<in> set (predicted_features tr))"
    if run: "kfcv_train e x y names folds test_split train_ratio (Some (x_test, y_test))
               save_names pw s = (Inr (), s')"
  proof -
    from run obtain sp s1 where
      split: "split_test e x y names 0 save_names s = (Inr sp, s1)"
      and r1: "(case sp of (x_test0, y_test0, x_train_and_val, y_train_and_val) \<Rightarrow>
            kfcv_folds e folds train_ratio pw x_train_and_val y_train_and_val x_test y_test) s1
            = (Inr (), s')"
      unfolding kfcv_train_def by (auto elim: bindA_InrE)
    obtain x_test0 y_test0 x_train_and_val y_train_and_val
      where sp: "sp = (x_test0, y_test0, x_train_and_val, y_train_and_val)"
      by (cases sp)
    from split_test_InrD [OF split [unfolded sp]] obtain names_test names_train where
      ext: "split_test_from_train_and_val e x y names 7 0 =
          Inr (x_test0, y_test0, x_train_and_val, y_train_and_val, names_test, names_train)"
      and s1: "trace s1 = trace s @ [Log (Info_splitting_dataset 0),
          Call_split_test_from_train_and_val x y names 7 0]"
      by blast
    from r1 have "kfcv_folds e folds train_ratio pw x_train_and_val y_train_and_val x_test y_test s1
        = (Inr (), s')"
      by (simp add: sp)
    from kfcv_folds_test_sets [OF this] obtain folded_xs folded_ys tr where
      "prepare_folded_data e x_train_and_val y_train_and_val folds 2 = Inr (folded_xs, folded_ys)"
      "trace s' = trace s1 @ tr"
      "trained_test_sets tr = map (Pair x_test)
        (successive_test_labels e folded_xs folded_ys train_ratio [0..<nat folds] y_test)"
      "length (trained_test_sets tr) = nat folds"
      "size_of x_test \<noteq> 0 \<longrightarrow>
         set (successive_test_labels e folded_xs folded_ys train_ratio [0..<nat folds] y_test)
           \<subseteq> set (rmse_labels tr)"
      "size_of x_test \<noteq> 0 \<longrightarrow> 0 < folds \<longrightarrow> x_test \<in> set (predicted_features tr)"
      by blast
    with ext s1 show ?thesis
      by (intro exI [of _ x_test0] exI [of _ y_test0] exI [of _ x_train_and_val]
          exI [of _ y_train_and_val] exI [of _ names_test] exI [of _ names_train]
          exI [of _ folded_xs] exI [of _ folded_ys] exI [of _ tr]) simp
  qed
  have full: "\<exists>x_test0 y_test0 x_train0 y_train0 names_test names_train
        x_train x_inner_val y_train y_inner_val tr.
       split_test_from_train_and_val e x y names 7 0 =
         Inr (x_test0, y_test0, x_train0, y_train0, names_test, names_train) \<and>
       split_inner_val_from_train_data e x_train0 y_train0 77 train_ratio =
         Inr (x_train, x_inner_val, y_train, y_inner_val) \<and>
       trace s'' = trace s @ [Log (Info_splitting_dataset 0),
         Call_split_test_from_train_and_val x y names 7 0] @ tr \<and>
       trained_test_sets tr =
         [(x_test, map (standardize (np_mean y_train) (np_std y_train)) y_test)] \<and>
       (size_of x_test \<noteq> 0 \<longrightarrow>
          x_test \<in> set (predicted_features tr) \<and>
          map (standardize (np_mean y_train) (np_std y_train)) y_test \<in> set (rmse_labels tr))"
    if run: "full_train e x y names test_split train_ratio (Some (x_test, y_test)) save_names s
               = (Inr (), s'')"
  proof -
    from run obtain sp s1 where
      split: "split_test e x y names 0 save_names s = (Inr sp, s1)"
      and r1: "(case sp of (x_test0, y_test0, x_train0, y_train0) \<Rightarrow>
            full_fit e train_ratio x_train0 y_train0 x_test y_test) s1 = (Inr (), s'')"
      unfolding full_train_def by (auto elim: bindA_InrE)
    obtain x_test0 y_test0 x_train0 y_train0
      where sp: "sp = (x_test0, y_test0, x_train0, y_train0)"
      by (cases sp)
    from split_test_InrD [OF split [unfolded sp]] obtain names_test names_train where
      ext: "split_test_from_train_and_val e x y names 7 0 =
          Inr (x_test0, y_test0, x_train0, y_train0, names_test, names_train)"
      and s1: "trace s1 = trace s @ [Log (Info_splitting_dataset 0),
          Call_split_test_from_train_and_val x y names 7 0]"
      by blast
    from r1 have "full_fit e train_ratio x_train0 y_train0 x_test y_test s1 = (Inr (), s'')"
      by (simp add: sp)
    from full_fit_InrD [OF this] obtain x_train x_inner_val y_train y_inner_val tr where
      "split_inner_val_from_train_data e x_train0 y_train0 77 train_ratio =
        Inr (x_train, x_inner_val, y_train, y_inner_val)"
      "trace s'' = trace s1 @ tr"
      "trained_test_sets tr =
        [(x_test, map (standardize (np_mean y_train) (np_std y_train)) y_test)]"
      "size_of x_test \<noteq> 0 \<longrightarrow>
         x_test \<in> set (predicted_features tr) \<and>
         map (standardize (np_mean y_train) (np_std y_train)) y_test \<in> set (rmse_labels tr)"
      by blast
    with ext s1 show ?thesis
      by (intro exI [of _ x_test0] exI [of _ y_test0] exI [of _ x_train0]
          exI [of _ y_train0] exI [of _ names_test] exI [of _ names_train]
          exI [of _ x_train] exI [of _ x_inner_val] exI [of _ y_train] exI [of _ y_inner_val]
          exI [of _ tr]) simp
  qed
  have indep: "kfcv_train e x y names folds test_split train_ratio (Some (x_test, y_test))
        save_names pw =
      kfcv_train e x y names folds test_split' train_ratio (Some (x_test, y_test)) save_names pw"
    "full_train e x y names test_split train_ratio (Some (x_test, y_test)) save_names =
      full_train e x y names test_split' train_ratio (Some (x_test, y_test)) save_names"
    by (simp_all add: kfcv_train_def full_train_def)
  from kfcv full indep show ?thesis
    by blast
qed


theorem supplied_test_data_overrides_split_witness:
  "fst (kfcv_train demo_ext [[1], [2], [3], [4]] [Fin 1, Fin 3, Fin 5, Fin 7]
      [''a'', ''b'', ''c'', ''d''] 2 (1/2) 1 (Some ([[9]], [Fin 1])) False None demo_world)
     = Inr () \<and>
   take 2 (trace (snd (kfcv_train demo_ext [[1], [2], [3], [4]] [Fin 1, Fin 3, Fin 5, Fin 7]
      [''a'', ''b'', ''c'', ''d''] 2 (1/2) 1 (Some ([[9]], [Fin 1])) False None demo_world))) =
     [Log (Info_splitting_dataset 0),
      Call_split_test_from_train_and_val [[1], [2], [3], [4]] [Fin 1, Fin 3, Fin 5, Fin 7]
        [''a'', ''b'', ''c'', ''d''] 7 0] \<and>
   trained_test_sets (trace (snd (kfcv_train demo_ext [[1], [2], [3], [4]]
      [Fin 1, Fin 3, Fin 5, Fin 7] [''a'', ''b'', ''c'', ''d''] 2 (1/2) 1
      (Some ([[9]], [Fin 1])) False None demo_world))) =
     [([[9]], [Fin (- 5)]), ([[9]], [Fin (- 7)])] \<and>
   [[9]] \<in> set (predicted_features (trace (snd (kfcv_train demo_ext [[1], [2], [3], [4]]
      [Fin 1, Fin 3, Fin 5, Fin 7] [''a'', ''b'', ''c'', ''d''] 2 (1/2) 1
      (Some ([[9]], [Fin 1])) False None demo_world)))) \<and>
   fst (full_train demo_ext [[1], [2]] [Fin 1, Fin 3] [''a'', ''b''] (1/2) 1
      (Some ([[9]], [Fin 4])) False demo_world) = Inr () \<and>
   trained_test_sets (trace (snd (full_train demo_ext [[1], [2]] [Fin 1, Fin 3] [''a'', ''b'']
      (1/2) 1 (Some ([[9]], [Fin 4])) False demo_world))) = [([[9]], [Fin 2])] \<and>
   [Fin 2] \<in> set (rmse_labels (trace (snd (full_train demo_ext [[1], [2]] [Fin 1, Fin 3]
      [''a'', ''b''] (1/2) 1 (Some ([[9]], [Fin 4])) False demo_world))))"
proof -
  let ?k = "kfcv_train demo_ext [[1], [2], [3], [4]] [Fin 1, Fin 3, Fin 5, Fin 7]
      [''a'', ''b'', ''c'', ''d''] 2 (1/2) 1 (Some ([[9]], [Fin 1])) False None demo_world"
  let ?f = "full_train demo_ext [[1], [2]] [Fin 1, Fin 3] [''a'', ''b''] (1/2) 1
      (Some ([[9]], [Fin 4])) False demo_world"
  have t0: "trace demo_world = []" and sz: "size_of [[9]] \<noteq> 0"
    by (simp_all add: demo_world_def size_of_def)
  have k_ok: "fst ?k = Inr ()"
    by (simp add: upt_0_2 demo_simps run_simps)
  then have k_run: "?k = (Inr (), snd ?k)"
    by (simp add: prod_eq_iff)
  have f_ok: "fst ?f = Inr ()"
    by (simp add: demo_simps run_simps full_train_def full_fit_def full_statistics_def)
  then have f_run: "?f = (Inr (), snd ?f)"
    by (simp add: prod_eq_iff)
  have k_split: "split_test_from_train_and_val demo_ext [[1], [2], [3], [4]]
      [Fin 1, Fin 3, Fin 5, Fin 7] [''a'', ''b'', ''c'', ''d''] 7 0 =
      Inr ([], [], [[1], [2], [3], [4]], [Fin 1, Fin 3, Fin 5, Fin 7], [],
           [''a'', ''b'', ''c'', ''d''])"
    by (simp add: demo_simps)
  have folded: "prepare_folded_data demo_ext [[1], [2], [3], [4]] [Fin 1, Fin 3, Fin 5, Fin 7] 2 2 =
      Inr ([[[1], [2]], [[3], [4]]], [[Fin 1, Fin 3], [Fin 5, Fin 7]])"
    by (simp add: demo_simps upt_0_2)
  have fold0: "prepare_data_one_fold demo_ext [[[1], [2]], [[3], [4]]]
      [[Fin 1, Fin 3], [Fin 5, Fin 7]] 0 4 1
     = Inr ([[3], [4]], [], [[1], [2]], [Fin 5, Fin 7], [], [Fin 1, Fin 3])"
    by (simp add: demo_simps)
  have fold1: "prepare_data_one_fold demo_ext [[[1], [2]], [[3], [4]]]
      [[Fin 1, Fin 3], [Fin 5, Fin 7]] 1 4 1
     = Inr ([[1], [2]], [], [[3], [4]], [Fin 1, Fin 3], [], [Fin 5, Fin 7])"
    by (simp add: demo_simps)
  have succ: "successive_test_labels demo_ext [[[1], [2]], [[3], [4]]]
      [[Fin 1, Fin 3], [Fin 5, Fin 7]] 1 [0..<nat 2] [Fin 1] = [[Fin (- 5)], [Fin (- 7)]]"
    using fold0 fold1
    by (simp add: upt_0_2 np_mean_def np_std_def standardize_def fsub_def)
  have f_split: "split_test_from_train_and_val demo_ext [[1], [2]] [Fin 1, Fin 3]
      [''a'', ''b''] 7 0 = Inr ([], [], [[1], [2]], [Fin 1, Fin 3], [], [''a'', ''b''])"
    by (simp add: demo_simps)
  have inner: "split_inner_val_from_train_data demo_ext [[1], [2]] [Fin 1, Fin 3] 77 1 =
      Inr ([[1], [2]], [], [Fin 1, Fin 3], [])"
    by (simp add: demo_simps)
  have once: "map (standardize (np_mean [Fin 1, Fin 3]) (np_std [Fin 1, Fin 3])) [Fin 4]
      = [Fin 2]"
    by (simp add: np_mean_def np_std_def standardize_def fsub_def)
  note inst = supplied_test_data_overrides_split
    [where e = demo_ext and s = demo_world and save_names = False and train_ratio = 1
       and x_test = "[[9]]" and test_split = "1/2" and test_split' = "1/2"]
  from inst [where x = "[[1], [2], [3], [4]]" and y = "[Fin 1, Fin 3, Fin 5, Fin 7]"
       and names = "[''a'', ''b'', ''c'', ''d'']" and folds = 2 and pw = None
       and y_test = "[Fin 1]" and s' = "snd ?k", THEN conjunct1] k_run
  obtain tr where
    "trace (snd ?k) = trace demo_world @ [Log (Info_splitting_dataset 0),
         Call_split_test_from_train_and_val [[1], [2], [3], [4]] [Fin 1, Fin 3, Fin 5, Fin 7]
           [''a'', ''b'', ''c'', ''d''] 7 0] @ tr"
    "trained_test_sets tr = [([[9]], [Fin (- 5)]), ([[9]], [Fin (- 7)])]"
    "[[9]] \<in> set (predicted_features tr)"
    using k_split folded succ sz by auto
  then have k: "take 2 (trace (snd ?k)) = [Log (Info_splitting_dataset 0),
      Call_split_test_from_train_and_val [[1], [2], [3], [4]] [Fin 1, Fin 3, Fin 5, Fin 7]
        [''a'', ''b'', ''c'', ''d''] 7 0]"
    "trained_test_sets (trace (snd ?k)) = [([[9]], [Fin (- 5)]), ([[9]], [Fin (- 7)])]"
    "[[9]] \<in> set (predicted_features (trace (snd ?k)))"
    by (simp_all add: t0)
  from inst [where x = "[[1], [2]]" and y = "[Fin 1, Fin 3]" and names = "[''a'', ''b'']"
       and y_test = "[Fin 4]" and s'' = "snd ?f", THEN conjunct2, THEN conjunct1] f_run
  obtain tr' where
    "trace (snd ?f) = trace demo_world @ [Log (Info_splitting_dataset 0),
         Call_split_test_from_train_and_val [[1], [2]] [Fin 1, Fin 3] [''a'', ''b''] 7 0] @ tr'"
    "trained_test_sets tr' = [([[9]], [Fin 2])]"
    "[Fin 2] \<in> set (rmse_labels tr')"
    using f_split inner once sz by auto
  then have f: "trained_test_sets (trace (snd ?f)) = [([[9]], [Fin 2])]"
    "[Fin 2] \<in> set (rmse_labels (trace (snd ?f)))"
    by (simp_all add: t0)
  from k_ok f_ok k f show ?thesis
    by simp
qed


end
